theory Spec2Isabelle
  imports Main
begin

section \<open>Data model (package types)\<close>

text \<open>
  \<open>BindingType\<close> is a Go string type; its named values are string constants and any other
  string is a legal value as well (\<open>parseBinding\<close> converts whatever the remote sends).
\<close>

type_synonym BindingType = string

definition BindingTypeKV :: BindingType where
  "BindingTypeKV = ''kv_namespace''"

definition BindingTypeR2 :: BindingType where
  "BindingTypeR2 = ''r2_bucket''"

definition BindingTypeD1 :: BindingType where
  "BindingTypeD1 = ''d1''"

definition BindingTypeDurableObject :: BindingType where
  "BindingTypeDurableObject = ''durable_object_namespace''"

definition BindingTypeService :: BindingType where
  "BindingTypeService = ''service''"

definition BindingTypeQueue :: BindingType where
  "BindingTypeQueue = ''queue''"

definition BindingTypeHyperdrive :: BindingType where
  "BindingTypeHyperdrive = ''hyperdrive''"

definition BindingTypeVectorize :: BindingType where
  "BindingTypeVectorize = ''vectorize''"

definition BindingTypeEnvVar :: BindingType where
  "BindingTypeEnvVar = ''plain_text''"

definition BindingTypeSecret :: BindingType where
  "BindingTypeSecret = ''secret_text''"

definition BindingTypeMTLS :: BindingType where
  "BindingTypeMTLS = ''mtls_certificate''"

text \<open>The struct \<open>Binding\<close>. The field \<open>Type\<close> is spelled \<open>BType\<close> and \<open>Name\<close> is
  spelled \<open>BName\<close>, since \<open>WorkerInfo\<close> has a \<open>Name\<close> of its own.\<close>

record Binding =
  BType :: BindingType
  BName :: string
  NamespaceID :: string
  BucketName :: string
  DatabaseID :: string
  DatabaseName :: string
  ClassName :: string
  ScriptName :: string
  QueueName :: string
  ConfigID :: string
  IndexName :: string

text \<open>The struct \<open>WorkerInfo\<close>; the two \<open>time.Time\<close> stamps are carried as integers.\<close>

record WorkerInfo =
  Name :: string
  AccountID :: string
  CreatedOn :: int
  ModifiedOn :: int
  Bindings :: "Binding list"

text \<open>\<open>RiskLevel\<close> is an \<open>iota\<close> enumeration; \<open>riskValue\<close> is the integer behind each name.\<close>

datatype RiskLevel = RiskLevelSafe | RiskLevelCaution | RiskLevelDanger

definition riskValue :: "RiskLevel \<Rightarrow> int" where
  "riskValue r = (case r of RiskLevelSafe \<Rightarrow> 0 | RiskLevelCaution \<Rightarrow> 1 | RiskLevelDanger \<Rightarrow> 2)"

record ResourceUsage =
  ResourceID :: string
  ResourceType :: BindingType
  ResourceName :: string
  UsedBy :: "string list"
  RiskLevel :: RiskLevel

record DeletionPlan =
  Worker :: WorkerInfo
  ResourcesToDelete :: "ResourceUsage list"
  HasSharedResources :: bool
  DeleteShared :: bool
  DeleteExclusiveOnly :: bool

section \<open>Analyzer: resource keys, risk classification, plan construction\<close>

text \<open>\<open>getResourceKey\<close>: a \<open>switch\<close> on the binding type; \<open>fmt.Sprintf\<close> with \<open>%s\<close> is
  concatenation. The empty string is the "no key" answer.\<close>

definition getResourceKey :: "Binding \<Rightarrow> string" where
  "getResourceKey binding =
     (if BType binding = BindingTypeKV then ''kv:'' @ NamespaceID binding
      else if BType binding = BindingTypeR2 then ''r2:'' @ BucketName binding
      else if BType binding = BindingTypeD1 then ''d1:'' @ DatabaseID binding
      else if BType binding = BindingTypeDurableObject
        then ''do:'' @ ClassName binding @ '':'' @ ScriptName binding
      else if BType binding = BindingTypeService then ''service:'' @ ScriptName binding
      else if BType binding = BindingTypeQueue then ''queue:'' @ QueueName binding
      else '''')"

definition getResourceID :: "Binding \<Rightarrow> string" where
  "getResourceID binding =
     (if BType binding = BindingTypeKV then NamespaceID binding
      else if BType binding = BindingTypeR2 then BucketName binding
      else if BType binding = BindingTypeD1 then DatabaseID binding
      else if BType binding = BindingTypeDurableObject then ClassName binding
      else if BType binding = BindingTypeService then ScriptName binding
      else if BType binding = BindingTypeQueue then QueueName binding
      else BName binding)"

definition getResourceName :: "Binding \<Rightarrow> string" where
  "getResourceName binding =
     (if BType binding = BindingTypeKV then BName binding
      else if BType binding = BindingTypeR2 then BucketName binding
      else if BType binding = BindingTypeD1 then DatabaseName binding
      else if BType binding = BindingTypeDurableObject then ClassName binding
      else if BType binding = BindingTypeService then ScriptName binding
      else if BType binding = BindingTypeQueue then QueueName binding
      else BName binding)"

text \<open>\<open>calculateRiskLevel\<close>: the counting loop, then the two thresholds. The counter is a Go
  \<open>int\<close>; a slice is far shorter than \<open>2^63\<close>, so it never wraps.\<close>

fun countOthers :: "string list \<Rightarrow> string \<Rightarrow> int \<Rightarrow> int" where
  "countOthers [] targetWorker otherCount = otherCount"
| "countOthers (worker # rest) targetWorker otherCount =
     countOthers rest targetWorker
       (if worker \<noteq> targetWorker then otherCount + 1 else otherCount)"

definition calculateRiskLevel :: "string list \<Rightarrow> string \<Rightarrow> RiskLevel" where
  "calculateRiskLevel usedBy targetWorker =
     (let otherCount = countOthers usedBy targetWorker 0
      in if otherCount = 0 then RiskLevelSafe
         else if otherCount \<le> 2 then RiskLevelCaution
         else RiskLevelDanger)"

text \<open>\<open>CreateDeletionPlan\<close>: the loop over the analysed resources, with the plan as the
  mutated state. The flag is set before the exclusive-only test skips an entry.\<close>

fun planLoop :: "bool \<Rightarrow> ResourceUsage list \<Rightarrow> DeletionPlan \<Rightarrow> DeletionPlan" where
  "planLoop exclusiveOnly [] plan = plan"
| "planLoop exclusiveOnly (resource # rest) plan =
     (let plan1 = (if RiskLevel resource \<noteq> RiskLevelSafe
                   then plan\<lparr>HasSharedResources := True\<rparr> else plan)
      in if exclusiveOnly \<and> RiskLevel resource \<noteq> RiskLevelSafe
         then planLoop exclusiveOnly rest plan1
         else planLoop exclusiveOnly rest
                (plan1\<lparr>ResourcesToDelete := ResourcesToDelete plan1 @ [resource]\<rparr>))"

definition CreateDeletionPlan :: "WorkerInfo \<Rightarrow> ResourceUsage list \<Rightarrow> bool \<Rightarrow> DeletionPlan" where
  "CreateDeletionPlan worker resources exclusiveOnly =
     planLoop exclusiveOnly resources
       \<lparr>Worker = worker, ResourcesToDelete = [], HasSharedResources = False,
        DeleteShared = False, DeleteExclusiveOnly = exclusiveOnly\<rparr>"

section \<open>Errors and the remote-call layer (package api)\<close>

text \<open>
  A Go \<open>error\<close> is a value. \<open>Remote e\<close> is an error handed back by the cloudflare-go library
  or the HTTP layer (its kind \<open>'e\<close> is the library's business), \<open>Errorf msg err\<close> is
  \<open>fmt.Errorf(msg + "%w", err)\<close>, and \<open>ErrorNew msg\<close> is an error made from a message alone.
\<close>

datatype 'e error = Remote 'e | Errorf string "'e error" | ErrorNew string

text \<open>Every call that leaves the process is written to a log, in the order it is issued.\<close>

datatype call =
    ListWorkersCall
  | GetWorkerBindingsCall string
  | DeleteWorkerCall string
  | DeleteKVNamespaceCall string
  | DeleteR2BucketCall string
  | DeleteD1DatabaseCall string
  | ListKVNamespacesCall
  | ListD1DatabasesCall

text \<open>The world outside: the account's state \<open>'s\<close> and the log of calls issued so far.\<close>

type_synonym 's world = "'s \<times> call list"

text \<open>
  The struct \<open>Client\<close>. Its field \<open>cf\<close> is the cloudflare-go handle; the library is not part
  of this repository, so each library method the client uses is a field here: a function
  from the account's state to an answer and the next state. \<open>cfListWorkers\<close> answers with
  (ID, CreatedOn, ModifiedOn) triples, the two listing calls with (id, name) pairs.
  \<open>fetchBindings\<close> stands for the body of \<open>GetWorkerBindings\<close> (a stub that answers with
  no bindings in one revision, an HTTP request to the settings endpoint in the other).
\<close>

record ('s, 'e) Client =
  accountID :: string
  cfListWorkers :: "string \<Rightarrow> 's \<Rightarrow> ('e + (string \<times> int \<times> int) list) \<times> 's"
  fetchBindings :: "string \<Rightarrow> string \<Rightarrow> 's \<Rightarrow> ('e error + Binding list) \<times> 's"
  cfDeleteWorker :: "string \<Rightarrow> string \<Rightarrow> 's \<Rightarrow> 'e option \<times> 's"
  cfDeleteWorkersKVNamespace :: "string \<Rightarrow> string \<Rightarrow> 's \<Rightarrow> 'e option \<times> 's"
  cfDeleteR2Bucket :: "string \<Rightarrow> string \<Rightarrow> 's \<Rightarrow> 'e option \<times> 's"
  cfDeleteD1Database :: "string \<Rightarrow> string \<Rightarrow> 's \<Rightarrow> 'e option \<times> 's"
  cfListWorkersKVNamespaces :: "string \<Rightarrow> 's \<Rightarrow> ('e + (string \<times> string) list) \<times> 's"
  cfListD1Databases :: "string \<Rightarrow> 's \<Rightarrow> ('e + (string \<times> string) list) \<times> 's"

definition ListWorkers ::
  "('s, 'e) Client \<Rightarrow> 's world \<Rightarrow> ('e error + WorkerInfo list) \<times> 's world" where
  "ListWorkers c w =
     (case cfListWorkers c (accountID c) (fst w) of
        (Inl err, s') \<Rightarrow>
          (Inl (Errorf ''failed to list workers: '' (Remote err)), (s', snd w @ [ListWorkersCall]))
      | (Inr workers, s') \<Rightarrow>
          (Inr (map (\<lambda>(wid, created, modified).
                  \<lparr>Name = wid, AccountID = accountID c, CreatedOn = created,
                   ModifiedOn = modified, Bindings = []\<rparr>) workers),
           (s', snd w @ [ListWorkersCall])))"

definition GetWorkerBindings ::
  "('s, 'e) Client \<Rightarrow> string \<Rightarrow> 's world \<Rightarrow> ('e error + Binding list) \<times> 's world" where
  "GetWorkerBindings c scriptName w =
     (case fetchBindings c (accountID c) scriptName (fst w) of
        (r, s') \<Rightarrow> (r, (s', snd w @ [GetWorkerBindingsCall scriptName])))"

text \<open>\<open>GetWorker\<close>: list, search by name, then fetch the bindings; a failed fetch leaves the
  worker with no bindings and is not an error.\<close>

definition GetWorker ::
  "('s, 'e) Client \<Rightarrow> string \<Rightarrow> 's world \<Rightarrow> ('e error + WorkerInfo) \<times> 's world" where
  "GetWorker c name w =
     (case ListWorkers c w of
        (Inl err, w1) \<Rightarrow> (Inl (Errorf ''failed to list workers: '' err), w1)
      | (Inr workers, w1) \<Rightarrow>
          (case find (\<lambda>x. Name x = name) workers of
             None \<Rightarrow> (Inl (ErrorNew (''worker not found: '' @ name)), w1)
           | Some foundWorker \<Rightarrow>
               (case GetWorkerBindings c name w1 of
                  (Inl err, w2) \<Rightarrow> (Inr (foundWorker\<lparr>Bindings := []\<rparr>), w2)
                | (Inr bindings, w2) \<Rightarrow> (Inr (foundWorker\<lparr>Bindings := bindings\<rparr>), w2))))"

definition DeleteWorker ::
  "('s, 'e) Client \<Rightarrow> string \<Rightarrow> 's world \<Rightarrow> 'e error option \<times> 's world" where
  "DeleteWorker c name w =
     (case cfDeleteWorker c (accountID c) name (fst w) of
        (Some err, s') \<Rightarrow>
          (Some (Errorf ''failed to delete worker: '' (Remote err)),
           (s', snd w @ [DeleteWorkerCall name]))
      | (None, s') \<Rightarrow> (None, (s', snd w @ [DeleteWorkerCall name])))"

definition DeleteKVNamespace ::
  "('s, 'e) Client \<Rightarrow> string \<Rightarrow> 's world \<Rightarrow> 'e error option \<times> 's world" where
  "DeleteKVNamespace c namespaceID w =
     (case cfDeleteWorkersKVNamespace c (accountID c) namespaceID (fst w) of
        (Some err, s') \<Rightarrow>
          (Some (Errorf ''failed to delete KV namespace: '' (Remote err)),
           (s', snd w @ [DeleteKVNamespaceCall namespaceID]))
      | (None, s') \<Rightarrow> (None, (s', snd w @ [DeleteKVNamespaceCall namespaceID])))"

definition DeleteR2Bucket ::
  "('s, 'e) Client \<Rightarrow> string \<Rightarrow> 's world \<Rightarrow> 'e error option \<times> 's world" where
  "DeleteR2Bucket c bucketName w =
     (case cfDeleteR2Bucket c (accountID c) bucketName (fst w) of
        (Some err, s') \<Rightarrow>
          (Some (Errorf ''failed to delete R2 bucket: '' (Remote err)),
           (s', snd w @ [DeleteR2BucketCall bucketName]))
      | (None, s') \<Rightarrow> (None, (s', snd w @ [DeleteR2BucketCall bucketName])))"

definition DeleteD1Database ::
  "('s, 'e) Client \<Rightarrow> string \<Rightarrow> 's world \<Rightarrow> 'e error option \<times> 's world" where
  "DeleteD1Database c databaseID w =
     (case cfDeleteD1Database c (accountID c) databaseID (fst w) of
        (Some err, s') \<Rightarrow>
          (Some (Errorf ''failed to delete D1 database: '' (Remote err)),
           (s', snd w @ [DeleteD1DatabaseCall databaseID]))
      | (None, s') \<Rightarrow> (None, (s', snd w @ [DeleteD1DatabaseCall databaseID])))"

definition GetKVNamespaceTitle ::
  "('s, 'e) Client \<Rightarrow> string \<Rightarrow> 's world \<Rightarrow> ('e error + string) \<times> 's world" where
  "GetKVNamespaceTitle c namespaceID w =
     (case cfListWorkersKVNamespaces c (accountID c) (fst w) of
        (Inl err, s') \<Rightarrow> (Inl (Remote err), (s', snd w @ [ListKVNamespacesCall]))
      | (Inr namespaces, s') \<Rightarrow>
          (case find (\<lambda>ns. fst ns = namespaceID) namespaces of
             Some ns \<Rightarrow> (Inr (snd ns), (s', snd w @ [ListKVNamespacesCall]))
           | None \<Rightarrow>
               (Inl (ErrorNew ''namespace not found''), (s', snd w @ [ListKVNamespacesCall]))))"

definition GetD1DatabaseName ::
  "('s, 'e) Client \<Rightarrow> string \<Rightarrow> 's world \<Rightarrow> ('e error + string) \<times> 's world" where
  "GetD1DatabaseName c databaseID w =
     (case cfListD1Databases c (accountID c) (fst w) of
        (Inl err, s') \<Rightarrow> (Inl (Remote err), (s', snd w @ [ListD1DatabasesCall]))
      | (Inr databases, s') \<Rightarrow>
          (case find (\<lambda>db. fst db = databaseID) databases of
             Some db \<Rightarrow> (Inr (snd db), (s', snd w @ [ListD1DatabasesCall]))
           | None \<Rightarrow>
               (Inl (ErrorNew ''database not found''), (s', snd w @ [ListD1DatabasesCall]))))"

section \<open>Analyzer: the whole-account scan and the target's resources\<close>

text \<open>
  \<open>resourceMap\<close> is a Go map from key to a pointer to a \<open>ResourceUsage\<close>: here a map from key
  to the struct, every write through the pointer being a map update. \<open>addBinding\<close> is the
  body of the inner loop of the scan: skip a binding with no key, create the entry on
  first sight (its \<open>RiskLevel\<close> is the zero value), then append the worker's name.
\<close>

definition addBinding ::
  "string \<Rightarrow> (string \<rightharpoonup> ResourceUsage) \<Rightarrow> Binding \<Rightarrow> (string \<rightharpoonup> ResourceUsage)" where
  "addBinding workerName resourceMap binding =
     (let resourceKey = getResourceKey binding
      in if resourceKey = '''' then resourceMap
         else
           (let usage = (case resourceMap resourceKey of
                           Some u \<Rightarrow> u
                         | None \<Rightarrow>
                             \<lparr>ResourceID = getResourceID binding, ResourceType = BType binding,
                              ResourceName = getResourceName binding, UsedBy = [],
                              RiskLevel = RiskLevelSafe\<rparr>)
            in resourceMap(resourceKey \<mapsto> usage\<lparr>UsedBy := UsedBy usage @ [workerName]\<rparr>)))"

fun scanBindings ::
  "string \<Rightarrow> (string \<rightharpoonup> ResourceUsage) \<Rightarrow> Binding list \<Rightarrow> (string \<rightharpoonup> ResourceUsage)" where
  "scanBindings workerName resourceMap [] = resourceMap"
| "scanBindings workerName resourceMap (binding # rest) =
     scanBindings workerName (addBinding workerName resourceMap binding) rest"

text \<open>The outer loop: a worker whose details cannot be read is skipped. The progress
  callback only reports to the screen and is left out.\<close>

fun scanWorkers ::
  "('s, 'e) Client \<Rightarrow> (string \<rightharpoonup> ResourceUsage) \<Rightarrow> WorkerInfo list \<Rightarrow> 's world
     \<Rightarrow> (string \<rightharpoonup> ResourceUsage) \<times> 's world" where
  "scanWorkers c resourceMap [] w = (resourceMap, w)"
| "scanWorkers c resourceMap (worker # rest) w =
     (case GetWorker c (Name worker) w of
        (Inl err, w') \<Rightarrow> scanWorkers c resourceMap rest w'
      | (Inr fullWorker, w') \<Rightarrow>
          scanWorkers c (scanBindings (Name worker) resourceMap (Bindings fullWorker)) rest w')"

definition enrichResourceName ::
  "('s, 'e) Client \<Rightarrow> Binding \<Rightarrow> string \<Rightarrow> 's world \<Rightarrow> string \<times> 's world" where
  "enrichResourceName c binding currentName w =
     (if currentName \<noteq> '''' \<and> currentName \<noteq> BName binding then (currentName, w)
      else if BType binding = BindingTypeKV then
        (case GetKVNamespaceTitle c (NamespaceID binding) w of
           (Inr title, w') \<Rightarrow> (title, w')
         | (Inl err, w') \<Rightarrow> (currentName, w'))
      else if BType binding = BindingTypeD1 then
        (case GetD1DatabaseName c (DatabaseID binding) w of
           (Inr name, w') \<Rightarrow> (name, w')
         | (Inl err, w') \<Rightarrow> (currentName, w'))
      else (currentName, w))"

text \<open>
  The second loop of \<open>AnalyzeDependencies\<close>, over the target's bindings. \<open>usage\<close> points
  into \<open>resourceMap\<close> when the key is there, so the two assignments also change the map's
  entry (a later binding with the same key reads the enriched name); when the key is
  absent, \<open>usage\<close> is a fresh struct and the map stays as it is.
\<close>

fun targetResources ::
  "('s, 'e) Client \<Rightarrow> WorkerInfo \<Rightarrow> (string \<rightharpoonup> ResourceUsage) \<Rightarrow> ResourceUsage list
     \<Rightarrow> Binding list \<Rightarrow> 's world \<Rightarrow> ResourceUsage list \<times> 's world" where
  "targetResources c targetWorker resourceMap result [] w = (result, w)"
| "targetResources c targetWorker resourceMap result (binding # rest) w =
     (let resourceKey = getResourceKey binding
      in if resourceKey = '''' then targetResources c targetWorker resourceMap result rest w
         else
           (let usage0 = (case resourceMap resourceKey of
                            Some u \<Rightarrow> u
                          | None \<Rightarrow>
                              \<lparr>ResourceID = getResourceID binding, ResourceType = BType binding,
                               ResourceName = getResourceName binding,
                               UsedBy = [Name targetWorker], RiskLevel = RiskLevelSafe\<rparr>);
                enriched = enrichResourceName c binding (ResourceName usage0) w;
                usage = usage0\<lparr>ResourceName := fst enriched,
                          RiskLevel := calculateRiskLevel (UsedBy usage0) (Name targetWorker)\<rparr>;
                resourceMap' = (if resourceMap resourceKey = None then resourceMap
                                else resourceMap(resourceKey \<mapsto> usage))
            in targetResources c targetWorker resourceMap' (result @ [usage]) rest
                 (snd enriched)))"

definition AnalyzeDependencies ::
  "('s, 'e) Client \<Rightarrow> WorkerInfo \<Rightarrow> 's world \<Rightarrow> ('e error + ResourceUsage list) \<times> 's world" where
  "AnalyzeDependencies c targetWorker w =
     (case ListWorkers c w of
        (Inl err, w1) \<Rightarrow> (Inl (Errorf ''failed to list workers: '' err), w1)
      | (Inr allWorkers, w1) \<Rightarrow>
          (case scanWorkers c Map.empty allWorkers w1 of
             (resourceMap, w2) \<Rightarrow>
               (case targetResources c targetWorker resourceMap [] (Bindings targetWorker) w2 of
                  (result, w3) \<Rightarrow> (Inr result, w3))))"

section \<open>Deleter: executing a plan\<close>

record 'e DeletionResult =
  Success :: bool
  WorkerDeleted :: bool
  ResourcesDeleted :: "string list"
  ResourcesSkipped :: "string list"
  Errors :: "'e error list"

record ('s, 'e) Deleter =
  client :: "('s, 'e) Client"
  dryRun :: bool

text \<open>\<open>deleteResource\<close>: the \<open>switch\<close> on the resource's type. Three kinds answer "no
  error" without any call; a type outside the six is an error made on the spot.\<close>

definition deleteResource ::
  "('s, 'e) Deleter \<Rightarrow> ResourceUsage \<Rightarrow> 's world \<Rightarrow> 'e error option \<times> 's world" where
  "deleteResource d resource w =
     (if ResourceType resource = BindingTypeKV
        then DeleteKVNamespace (client d) (ResourceID resource) w
      else if ResourceType resource = BindingTypeR2
        then DeleteR2Bucket (client d) (ResourceID resource) w
      else if ResourceType resource = BindingTypeD1
        then DeleteD1Database (client d) (ResourceID resource) w
      else if ResourceType resource = BindingTypeDurableObject then (None, w)
      else if ResourceType resource = BindingTypeService then (None, w)
      else if ResourceType resource = BindingTypeQueue then (None, w)
      else (Some (ErrorNew (''unsupported resource type: '' @ ResourceType resource)), w))"

text \<open>The dry-run loop: every planned resource's name is appended to \<open>ResourcesDeleted\<close>.\<close>

fun simulateResources :: "ResourceUsage list \<Rightarrow> 'e DeletionResult \<Rightarrow> 'e DeletionResult" where
  "simulateResources [] result = result"
| "simulateResources (resource # rest) result =
     simulateResources rest
       (result\<lparr>ResourcesDeleted := ResourcesDeleted result @ [ResourceName resource]\<rparr>)"

text \<open>Step 2 of \<open>Execute\<close>: the loop over the planned resources, in plan order.\<close>

fun deleteResources ::
  "('s, 'e) Deleter \<Rightarrow> DeletionPlan \<Rightarrow> ResourceUsage list \<Rightarrow> 'e DeletionResult \<Rightarrow> 's world
     \<Rightarrow> 'e DeletionResult \<times> 's world" where
  "deleteResources d plan [] result w = (result, w)"
| "deleteResources d plan (resource # rest) result w =
     (if \<not> DeleteShared plan \<and> RiskLevel resource \<noteq> RiskLevelSafe
      then deleteResources d plan rest
             (result\<lparr>ResourcesSkipped := ResourcesSkipped result @ [ResourceName resource]\<rparr>) w
      else
        (case deleteResource d resource w of
           (Some err, w') \<Rightarrow>
             deleteResources d plan rest
               (result\<lparr>Errors := Errors result @ [err],
                  ResourcesSkipped := ResourcesSkipped result @ [ResourceName resource]\<rparr>) w'
         | (None, w') \<Rightarrow>
             deleteResources d plan rest
               (result\<lparr>ResourcesDeleted := ResourcesDeleted result @ [ResourceName resource]\<rparr>)
               w'))"

text \<open>\<open>Execute\<close> returns the result together with an error; when the worker's delete
  fails, both are returned.\<close>

definition Execute ::
  "('s, 'e) Deleter \<Rightarrow> DeletionPlan \<Rightarrow> 's world
     \<Rightarrow> ('e DeletionResult \<times> 'e error option) \<times> 's world" where
  "Execute d plan w =
     (let result = \<lparr>Success = True, WorkerDeleted = False, ResourcesDeleted = [],
                    ResourcesSkipped = [], Errors = []\<rparr>
      in if dryRun d
         then ((simulateResources (ResourcesToDelete plan) (result\<lparr>WorkerDeleted := True\<rparr>),
                None), w)
         else
           (case DeleteWorker (client d) (Name (Worker plan)) w of
              (Some err, w1) \<Rightarrow>
                ((result\<lparr>Success := False,
                    Errors := Errors result @ [Errorf ''failed to delete worker: '' err]\<rparr>,
                  Some err), w1)
            | (None, w1) \<Rightarrow>
                (case deleteResources d plan (ResourcesToDelete plan)
                        (result\<lparr>WorkerDeleted := True\<rparr>) w1 of
                   (result2, w2) \<Rightarrow>
                     ((if length (Errors result2) > 0 then result2\<lparr>Success := False\<rparr>
                       else result2, None), w2))))"

section \<open>Views: the shared-resource warning of a plan\<close>

text \<open>\<open>countSharedResources\<close>: the counting loop of the plan view.\<close>

fun countSharedLoop :: "ResourceUsage list \<Rightarrow> int \<Rightarrow> int" where
  "countSharedLoop [] count = count"
| "countSharedLoop (resource # rest) count =
     countSharedLoop rest (if RiskLevel resource \<noteq> RiskLevelSafe then count + 1 else count)"

definition countSharedResources :: "ResourceUsage list \<Rightarrow> int" where
  "countSharedResources resources = countSharedLoop resources 0"

text \<open>
  The last step of \<open>RenderDeletionPlan\<close>: when the plan's flag is set, a warning is printed
  with the number of shared resources among the plan's \<open>ResourcesToDelete\<close>.
  \<open>sharedWarning\<close> is that number when the warning is printed, and nothing otherwise.
\<close>

definition sharedWarning :: "DeletionPlan \<Rightarrow> int option" where
  "sharedWarning plan =
     (if HasSharedResources plan then Some (countSharedResources (ResourcesToDelete plan))
      else None)"

section \<open>Reading an execution: outcomes and calls\<close>

text \<open>
  What happened to one planned resource: skipped by policy (shared, and shared resources
  are not to be deleted), failed with the error its delete answered, or deleted.
  \<open>outcomes\<close> lists the outcome of every planned resource in plan order, each delete
  being issued in the world its predecessors left behind.
\<close>

datatype 'e outcome = SkippedByPolicy | Failed "'e error" | Deleted

fun outcomes ::
  "('s, 'e) Deleter \<Rightarrow> DeletionPlan \<Rightarrow> ResourceUsage list \<Rightarrow> 's world
     \<Rightarrow> (ResourceUsage \<times> 'e outcome) list" where
  "outcomes d plan [] w = []"
| "outcomes d plan (resource # rest) w =
     (if \<not> DeleteShared plan \<and> RiskLevel resource \<noteq> RiskLevelSafe
      then (resource, SkippedByPolicy) # outcomes d plan rest w
      else (case deleteResource d resource w of
              (Some err, w') \<Rightarrow> (resource, Failed err) # outcomes d plan rest w'
            | (None, w') \<Rightarrow> (resource, Deleted) # outcomes d plan rest w'))"

definition outcomeError :: "ResourceUsage \<times> 'e outcome \<Rightarrow> 'e error option" where
  "outcomeError x = (case snd x of Failed err \<Rightarrow> Some err | _ \<Rightarrow> None)"

text \<open>The remote call that deleting a resource of a given type issues (none for the types
  without a delete call).\<close>

definition resourceCalls :: "ResourceUsage \<Rightarrow> call list" where
  "resourceCalls resource =
     (if ResourceType resource = BindingTypeKV then [DeleteKVNamespaceCall (ResourceID resource)]
      else if ResourceType resource = BindingTypeR2 then [DeleteR2BucketCall (ResourceID resource)]
      else if ResourceType resource = BindingTypeD1
        then [DeleteD1DatabaseCall (ResourceID resource)]
      else [])"

section \<open>Reading an analysis: entries and the index\<close>

text \<open>
  \<open>entryFor t index b u\<close>: \<open>u\<close> is the entry the second loop makes for the target's binding
  \<open>b\<close>, given the index of the scan. With the key in the index the entry takes identity and
  users from the index; without it, from the binding and the target alone.
\<close>

definition entryFor ::
  "WorkerInfo \<Rightarrow> (string \<rightharpoonup> ResourceUsage) \<Rightarrow> Binding \<Rightarrow> ResourceUsage \<Rightarrow> bool" where
  "entryFor t index b u =
     (case index (getResourceKey b) of
        None \<Rightarrow> ResourceID u = getResourceID b \<and> ResourceType u = BType b
                \<and> UsedBy u = [Name t] \<and> RiskLevel u = RiskLevelSafe
      | Some u0 \<Rightarrow> ResourceID u = ResourceID u0 \<and> ResourceType u = ResourceType u0
                \<and> UsedBy u = UsedBy u0
                \<and> RiskLevel u = calculateRiskLevel (UsedBy u0) (Name t))"

text \<open>\<open>indexSound index\<close>: every entry of the index sits under a non-empty key and has the
  identity of some binding with that key.\<close>

definition indexSound :: "(string \<rightharpoonup> ResourceUsage) \<Rightarrow> bool" where
  "indexSound index =
     (\<forall>k u. index k = Some u \<longrightarrow>
        k \<noteq> '''' \<and> (\<exists>b. getResourceKey b = k \<and> ResourceID u = getResourceID b
                            \<and> ResourceType u = BType b))"

section \<open>Example account\<close>

text \<open>Modelled from the spec: the failure kinds of the remote delete calls (the library's
  own error type is not part of this repository).\<close>

datatype remote_failure = NotFound | RemoteError string

definition kvBinding :: "string \<Rightarrow> string \<Rightarrow> Binding" where
  "kvBinding name ns =
     \<lparr>BType = BindingTypeKV, BName = name, NamespaceID = ns, BucketName = '''',
      DatabaseID = '''', DatabaseName = '''', ClassName = '''', ScriptName = '''',
      QueueName = '''', ConfigID = '''', IndexName = ''''\<rparr>"

definition d1Binding :: "string \<Rightarrow> string \<Rightarrow> Binding" where
  "d1Binding name db =
     \<lparr>BType = BindingTypeD1, BName = name, NamespaceID = '''', BucketName = '''',
      DatabaseID = db, DatabaseName = '''', ClassName = '''', ScriptName = '''',
      QueueName = '''', ConfigID = '''', IndexName = ''''\<rparr>"


definition serviceBinding :: "string \<Rightarrow> string \<Rightarrow> Binding" where
  "serviceBinding name script =
     \<lparr>BType = BindingTypeService, BName = name, NamespaceID = '''', BucketName = '''',
      DatabaseID = '''', DatabaseName = '''', ClassName = '''', ScriptName = script,
      QueueName = '''', ConfigID = '''', IndexName = ''''\<rparr>"


text \<open>Two workers: \<open>billing-svc\<close> binds namespace \<open>ns-1\<close> and database \<open>db-7\<close>;
  \<open>reports-svc\<close> binds \<open>ns-1\<close> three times, under three local names.\<close>

definition exampleBindings :: "string \<Rightarrow> Binding list" where
  "exampleBindings worker =
     (if worker = ''billing-svc'' then [kvBinding ''SESSIONS'' ''ns-1'', d1Binding ''DB'' ''db-7'']
      else if worker = ''reports-svc''
        then [kvBinding ''CACHE'' ''ns-1'', kvBinding ''CACHE_RO'' ''ns-1'',
              kvBinding ''CACHE_OLD'' ''ns-1'']
      else [])"

text \<open>The account's state is the list of items that still exist; deleting an item that is
  not there is answered with \<open>NotFound\<close>.\<close>

definition deleteItem :: "string \<Rightarrow> string list \<Rightarrow> remote_failure option \<times> string list" where
  "deleteItem x s = (if x \<in> set s then (None, removeAll x s) else (Some NotFound, s))"

definition exampleClient :: "(string list, remote_failure) Client" where
  "exampleClient =
     \<lparr>accountID = ''acct'',
      cfListWorkers = (\<lambda>a s. (Inr [(''billing-svc'', 0, 0), (''reports-svc'', 0, 0)], s)),
      fetchBindings = (\<lambda>a n s. (Inr (exampleBindings n), s)),
      cfDeleteWorker = (\<lambda>a. deleteItem),
      cfDeleteWorkersKVNamespace = (\<lambda>a. deleteItem),
      cfDeleteR2Bucket = (\<lambda>a. deleteItem),
      cfDeleteD1Database = (\<lambda>a. deleteItem),
      cfListWorkersKVNamespaces = (\<lambda>a s. (Inr [(''ns-1'', ''sessions'')], s)),
      cfListD1Databases = (\<lambda>a s. (Inr [(''db-7'', ''ledger'')], s))\<rparr>"

definition billingWorker :: WorkerInfo where
  "billingWorker =
     \<lparr>Name = ''billing-svc'', AccountID = ''acct'', CreatedOn = 0, ModifiedOn = 0,
      Bindings = exampleBindings ''billing-svc''\<rparr>"

definition exampleUsage :: "string \<Rightarrow> BindingType \<Rightarrow> string \<Rightarrow> string list \<Rightarrow> RiskLevel \<Rightarrow> ResourceUsage" where
  "exampleUsage rid ty name users level =
     \<lparr>ResourceID = rid, ResourceType = ty, ResourceName = name, UsedBy = users,
      RiskLevel = level\<rparr>"

definition examplePlan :: "ResourceUsage list \<Rightarrow> bool \<Rightarrow> DeletionPlan" where
  "examplePlan resources deleteShared =
     \<lparr>Worker = billingWorker, ResourcesToDelete = resources, HasSharedResources = False,
      DeleteShared = deleteShared, DeleteExclusiveOnly = False\<rparr>"

text \<open>The same account behind a library whose worker delete always fails, and the same
  account when the scan finds no worker at all.\<close>

definition failingClient :: "(string list, remote_failure) Client" where
  "failingClient =
     exampleClient\<lparr>cfDeleteWorker := (\<lambda>a n s. (Some (RemoteError ''internal error''), s))\<rparr>"

definition emptyClient :: "(string list, remote_failure) Client" where
  "emptyClient = exampleClient\<lparr>cfListWorkers := (\<lambda>a s. (Inr [], s))\<rparr>"

definition sessionsUsage :: ResourceUsage where
  "sessionsUsage =
     exampleUsage ''ns-1'' BindingTypeKV ''sessions'' [''billing-svc''] RiskLevelSafe"

definition ledgerUsage :: ResourceUsage where
  "ledgerUsage = exampleUsage ''db-7'' BindingTypeD1 ''ledger'' [''billing-svc''] RiskLevelSafe"


text \<open>A worker that binds the same namespace under two local names.\<close>

definition twiceWorker :: WorkerInfo where
  "twiceWorker =
     \<lparr>Name = ''twice-svc'', AccountID = ''acct'', CreatedOn = 0, ModifiedOn = 0,
      Bindings = [kvBinding ''CACHE'' ''ns-2'', kvBinding ''CACHE_RO'' ''ns-2'']\<rparr>"

text \<open>An account whose only worker is \<open>twice-svc\<close>.\<close>

definition twiceClient :: "(string list, remote_failure) Client" where
  "twiceClient =
     exampleClient\<lparr>cfListWorkers := (\<lambda>a s. (Inr [(''twice-svc'', 0, 0)], s)),
        fetchBindings := (\<lambda>a n s.
           (Inr (if n = ''twice-svc'' then Bindings twiceWorker else []), s))\<rparr>"

text \<open>\<open>reports-svc\<close> as the target: three bindings to the namespace it shares with
  \<open>billing-svc\<close>. And a worker that links the same service under two names.\<close>

definition reportsWorker :: WorkerInfo where
  "reportsWorker =
     \<lparr>Name = ''reports-svc'', AccountID = ''acct'', CreatedOn = 0, ModifiedOn = 0,
      Bindings = exampleBindings ''reports-svc''\<rparr>"

definition linkWorker :: WorkerInfo where
  "linkWorker =
     \<lparr>Name = ''link-svc'', AccountID = ''acct'', CreatedOn = 0, ModifiedOn = 0,
      Bindings = [serviceBinding ''AUTH'' ''auth-svc'', serviceBinding ''AUTH_V2'' ''auth-svc'']\<rparr>"

section \<open>Properties of the risk classifier\<close>

lemmas BindingType_defs =
  BindingTypeKV_def BindingTypeR2_def BindingTypeD1_def BindingTypeDurableObject_def
  BindingTypeService_def BindingTypeQueue_def BindingTypeHyperdrive_def
  BindingTypeVectorize_def BindingTypeEnvVar_def BindingTypeSecret_def BindingTypeMTLS_def

lemma countOthers_filter:
  "countOthers usedBy t n = n + int (length (filter (\<lambda>w. w \<noteq> t) usedBy))"
  by (induction usedBy arbitrary: n) auto

lemma calculateRiskLevel_occurrences:
  "calculateRiskLevel usedBy t =
     (let k = length (filter (\<lambda>w. w \<noteq> t) usedBy)
      in if k = 0 then RiskLevelSafe else if k \<le> 2 then RiskLevelCaution else RiskLevelDanger)"
  by (simp add: calculateRiskLevel_def countOthers_filter Let_def)

lemma riskValue_calculateRiskLevel_mono:
  assumes "length (filter (\<lambda>w. w \<noteq> t) us) \<le> length (filter (\<lambda>w. w \<noteq> t) vs)"
  shows "riskValue (calculateRiskLevel us t) \<le> riskValue (calculateRiskLevel vs t)"
proof -
  define a where "a = length (filter (\<lambda>w. w \<noteq> t) us)"
  define b where "b = length (filter (\<lambda>w. w \<noteq> t) vs)"
  have "a \<le> b" using assms by (simp add: a_def b_def)
  then show ?thesis
    unfolding calculateRiskLevel_occurrences Let_def riskValue_def a_def [symmetric] b_def [symmetric]
    by auto
qed

lemmas client_defs =
  ListWorkers_def GetWorker_def GetWorkerBindings_def DeleteWorker_def DeleteKVNamespace_def
  DeleteR2Bucket_def DeleteD1Database_def GetKVNamespaceTitle_def GetD1DatabaseName_def

text \<open>
  C9. Risk classification is monotonic in the usage list: appending a worker name, or
  inserting one anywhere, never lowers the level, and removing one occurrence of a name, or
  all of them, never raises it (levels compared by their integer values, Safe below Caution
  below Danger). This holds for every name, in particular for one different from the target.
\<close>

theorem calculateRiskLevel_monotonic:
  "riskValue (calculateRiskLevel usedBy t) \<le> riskValue (calculateRiskLevel (usedBy @ [w]) t)
   \<and> riskValue (calculateRiskLevel (xs @ ys) t) \<le> riskValue (calculateRiskLevel (xs @ w # ys) t)
   \<and> riskValue (calculateRiskLevel (remove1 w usedBy) t) \<le> riskValue (calculateRiskLevel usedBy t)
   \<and> riskValue (calculateRiskLevel (removeAll w usedBy) t) \<le> riskValue (calculateRiskLevel usedBy t)"
proof (intro conjI)
  show "riskValue (calculateRiskLevel usedBy t) \<le> riskValue (calculateRiskLevel (usedBy @ [w]) t)"
    by (rule riskValue_calculateRiskLevel_mono) simp
  show "riskValue (calculateRiskLevel (xs @ ys) t) \<le> riskValue (calculateRiskLevel (xs @ w # ys) t)"
    by (rule riskValue_calculateRiskLevel_mono) simp
  have "length (filter (\<lambda>v. v \<noteq> t) (remove1 w us)) \<le> length (filter (\<lambda>v. v \<noteq> t) us)" for us
    by (induction us) auto
  then show "riskValue (calculateRiskLevel (remove1 w usedBy) t) \<le> riskValue (calculateRiskLevel usedBy t)"
    by (rule riskValue_calculateRiskLevel_mono)
  have "length (filter (\<lambda>v. v \<noteq> t) (removeAll w us)) \<le> length (filter (\<lambda>v. v \<noteq> t) us)" for us
    by (induction us) auto
  then show "riskValue (calculateRiskLevel (removeAll w usedBy) t) \<le> riskValue (calculateRiskLevel usedBy t)"
    by (rule riskValue_calculateRiskLevel_mono)
qed

text \<open>
  C2. The claim is that classification counts distinct other workers. The loop counts
  occurrences. In the example account \<open>reports-svc\<close> binds namespace \<open>ns-1\<close> under three
  local names, so the scan appends its name three times, and the namespace is classified
  Danger for \<open>billing-svc\<close> although a single other worker uses it.
\<close>

theorem calculateRiskLevel_counts_occurrences:
  "fst (AnalyzeDependencies exampleClient billingWorker ([''billing-svc'', ''ns-1'', ''db-7''], [])) =
     Inr [\<lparr>ResourceID = ''ns-1'', ResourceType = BindingTypeKV, ResourceName = ''sessions'',
           UsedBy = [''billing-svc'', ''reports-svc'', ''reports-svc'', ''reports-svc''],
           RiskLevel = RiskLevelDanger\<rparr>,
          \<lparr>ResourceID = ''db-7'', ResourceType = BindingTypeD1, ResourceName = ''ledger'',
           UsedBy = [''billing-svc''], RiskLevel = RiskLevelSafe\<rparr>]
   \<and> calculateRiskLevel [''billing-svc'', ''reports-svc'', ''reports-svc'', ''reports-svc'']
        ''billing-svc'' = RiskLevelDanger
   \<and> remdups (filter (\<lambda>w. w \<noteq> ''billing-svc'')
        [''billing-svc'', ''reports-svc'', ''reports-svc'', ''reports-svc'']) = [''reports-svc'']"
  by code_simp

text \<open>Where no name is repeated the occurrence count is the count of distinct other
  workers, and the three tiers are as the claim has them.\<close>

lemma calculateRiskLevel_distinct:
  assumes "distinct usedBy"
  shows "calculateRiskLevel usedBy t =
     (let k = card (set usedBy - {t})
      in if k = 0 then RiskLevelSafe else if k \<le> 2 then RiskLevelCaution else RiskLevelDanger)"
proof -
  have "set (filter (\<lambda>w. w \<noteq> t) usedBy) = set usedBy - {t}"
    by auto
  moreover have "distinct (filter (\<lambda>w. w \<noteq> t) usedBy)"
    using assms by simp
  ultimately have "length (filter (\<lambda>w. w \<noteq> t) usedBy) = card (set usedBy - {t})"
    using distinct_card by metis
  then show ?thesis
    by (simp add: calculateRiskLevel_occurrences)
qed

section \<open>Properties of plan construction\<close>

lemma planLoop_ResourcesToDelete:
  "ResourcesToDelete (planLoop ex rs plan) =
     ResourcesToDelete plan @ filter (\<lambda>r. \<not> (ex \<and> RiskLevel r \<noteq> RiskLevelSafe)) rs"
  by (induction rs arbitrary: plan) (auto simp: Let_def)

lemma planLoop_HasSharedResources:
  "HasSharedResources (planLoop ex rs plan) =
     (HasSharedResources plan \<or> (\<exists>r \<in> set rs. RiskLevel r \<noteq> RiskLevelSafe))"
  by (induction rs arbitrary: plan) (auto simp: Let_def)

text \<open>
  C1. The flag should be true iff some entry included in \<open>ResourcesToDelete\<close> is above Safe,
  and so false for every plan built with \<open>exclusiveOnly\<close> set. The loop sets the flag before
  the exclusive-only test skips the entry: with \<open>exclusiveOnly\<close> set and one Caution resource
  analysed, the plan has nothing to delete, the flag is true all the same, and the plan view,
  which counts over \<open>ResourcesToDelete\<close>, prints its warning with the count 0.
\<close>

theorem CreateDeletionPlan_flag_with_empty_plan:
  "HasSharedResources
     (CreateDeletionPlan billingWorker
        [exampleUsage ''ns-1'' BindingTypeKV ''sessions'' [''billing-svc'', ''reports-svc'']
           RiskLevelCaution] True) = True
   \<and> ResourcesToDelete
     (CreateDeletionPlan billingWorker
        [exampleUsage ''ns-1'' BindingTypeKV ''sessions'' [''billing-svc'', ''reports-svc'']
           RiskLevelCaution] True) = []
   \<and> sharedWarning
     (CreateDeletionPlan billingWorker
        [exampleUsage ''ns-1'' BindingTypeKV ''sessions'' [''billing-svc'', ''reports-svc'']
           RiskLevelCaution] True) = Some 0"
  by code_simp

text \<open>
  What the loop computes: the flag is true iff some analysed resource, included or not, is
  above Safe; \<open>ResourcesToDelete\<close> is the analysed list without the entries above Safe when
  \<open>exclusiveOnly\<close> is set, and the whole list otherwise. So with \<open>exclusiveOnly\<close> set no
  included entry is above Safe, and without it the flag is as C1 has it.
\<close>

lemma CreateDeletionPlan_flag:
  "(HasSharedResources (CreateDeletionPlan worker resources exclusiveOnly)
      \<longleftrightarrow> (\<exists>r \<in> set resources. RiskLevel r \<noteq> RiskLevelSafe))
   \<and> ResourcesToDelete (CreateDeletionPlan worker resources exclusiveOnly) =
       filter (\<lambda>r. \<not> (exclusiveOnly \<and> RiskLevel r \<noteq> RiskLevelSafe)) resources
   \<and> (exclusiveOnly \<longrightarrow>
        (\<forall>r \<in> set (ResourcesToDelete (CreateDeletionPlan worker resources exclusiveOnly)).
           RiskLevel r = RiskLevelSafe))
   \<and> (\<not> exclusiveOnly \<longrightarrow>
        (HasSharedResources (CreateDeletionPlan worker resources exclusiveOnly)
           \<longleftrightarrow> (\<exists>r \<in> set (ResourcesToDelete (CreateDeletionPlan worker resources exclusiveOnly)).
                  RiskLevel r \<noteq> RiskLevelSafe)))"
  by (auto simp: CreateDeletionPlan_def planLoop_ResourcesToDelete planLoop_HasSharedResources)

section \<open>Properties of execution\<close>

lemma simulateResources_eq:
  "simulateResources rs result =
     result\<lparr>ResourcesDeleted := ResourcesDeleted result @ map ResourceName rs\<rparr>"
  by (induction rs arbitrary: result) auto

text \<open>
  C7. In dry-run mode \<open>Execute\<close> leaves the world as it found it (the account's state and the
  log of calls are unchanged: no remote call is issued) and reports the worker as deleted,
  the display name of every planned resource as deleted, in plan order, nothing skipped, no
  error, success, and a nil error beside the result.
\<close>

theorem Execute_dry_run:
  "Execute (d\<lparr>dryRun := True\<rparr>) plan w =
     ((\<lparr>Success = True, WorkerDeleted = True,
        ResourcesDeleted = map ResourceName (ResourcesToDelete plan),
        ResourcesSkipped = [], Errors = []\<rparr>, None), w)"
  by (simp add: Execute_def simulateResources_eq)

text \<open>
  C4. In real mode, when the library's worker delete answers with an error, \<open>Execute\<close>
  returns at once: success and worker-deleted are false, one error is recorded (the
  client's error, wrapped once more), nothing is deleted or skipped, and the log has grown
  by the worker delete call alone, so no resource delete call was issued.
\<close>

theorem Execute_worker_delete_fails:
  assumes "\<not> dryRun d"
    and "cfDeleteWorker (client d) (accountID (client d)) (Name (Worker plan)) (fst w) = (Some e, s')"
  shows "Execute d plan w =
     ((\<lparr>Success = False, WorkerDeleted = False, ResourcesDeleted = [], ResourcesSkipped = [],
        Errors = [Errorf ''failed to delete worker: ''
                    (Errorf ''failed to delete worker: '' (Remote e))]\<rparr>,
       Some (Errorf ''failed to delete worker: '' (Remote e))),
      (s', snd w @ [DeleteWorkerCall (Name (Worker plan))]))"
  using assms by (simp add: Execute_def DeleteWorker_def)


text \<open>The worker delete failing with a remote error, on a plan with two resources.\<close>

theorem Execute_worker_delete_fails_witness:
  "\<not> dryRun \<lparr>client = failingClient, dryRun = False\<rparr>
   \<and> Execute \<lparr>client = failingClient, dryRun = False\<rparr>
       (examplePlan [sessionsUsage, ledgerUsage] True)
       ([''billing-svc'', ''ns-1'', ''db-7''], []) =
     ((\<lparr>Success = False, WorkerDeleted = False, ResourcesDeleted = [], ResourcesSkipped = [],
        Errors = [Errorf ''failed to delete worker: ''
                    (Errorf ''failed to delete worker: '' (Remote (RemoteError ''internal error'')))]\<rparr>,
       Some (Errorf ''failed to delete worker: '' (Remote (RemoteError ''internal error'')))),
      ([''billing-svc'', ''ns-1'', ''db-7''], [DeleteWorkerCall ''billing-svc'']))"
proof -
  have h1: "\<not> dryRun \<lparr>client = failingClient, dryRun = False\<rparr>"
    by simp
  have h2: "cfDeleteWorker (client \<lparr>client = failingClient, dryRun = False\<rparr>)
        (accountID (client \<lparr>client = failingClient, dryRun = False\<rparr>))
        (Name (Worker (examplePlan [sessionsUsage, ledgerUsage] True)))
        (fst ([''billing-svc'', ''ns-1'', ''db-7''], ([]::call list))) =
      (Some (RemoteError ''internal error''), [''billing-svc'', ''ns-1'', ''db-7''])"
    by (simp add: failingClient_def)
  show ?thesis
    using h1 Execute_worker_delete_fails [OF h1 h2]
    by (simp add: examplePlan_def billingWorker_def)
qed

lemma deleteResource_log:
  "snd (snd (deleteResource d r w)) = snd w @ resourceCalls r"
  by (simp add: deleteResource_def resourceCalls_def client_defs BindingType_defs
      split: prod.splits option.splits)

lemma deleteResources_log:
  "snd (snd (deleteResources d plan rs res w)) =
     snd w @ concat (map resourceCalls
       (filter (\<lambda>r. DeleteShared plan \<or> RiskLevel r = RiskLevelSafe) rs))"
proof (induction rs arbitrary: res w)
  case Nil
  then show ?case by simp
next
  case (Cons r rs)
  show ?case
  proof (cases "\<not> DeleteShared plan \<and> RiskLevel r \<noteq> RiskLevelSafe")
    case True
    then show ?thesis using Cons.IH by auto
  next
    case False
    obtain e w' where dr: "deleteResource d r w = (e, w')"
      by (cases "deleteResource d r w")
    have "snd w' = snd w @ resourceCalls r"
      using deleteResource_log [of d r w] dr by simp
    then show ?thesis
      using False dr Cons.IH by (cases e) auto
  qed
qed

lemma outcomes_map_fst: "map fst (outcomes d plan rs w) = rs"
  by (induction rs arbitrary: w) (auto split: prod.splits option.splits)

lemma deleteResources_result:
  "fst (deleteResources d plan rs res w) =
     res\<lparr>ResourcesDeleted := ResourcesDeleted res @
            map (ResourceName \<circ> fst) (filter (\<lambda>x. snd x = Deleted) (outcomes d plan rs w)),
         ResourcesSkipped := ResourcesSkipped res @
            map (ResourceName \<circ> fst) (filter (\<lambda>x. snd x \<noteq> Deleted) (outcomes d plan rs w)),
         Errors := Errors res @ List.map_filter outcomeError (outcomes d plan rs w)\<rparr>"
proof (induction rs arbitrary: res w)
  case Nil
  then show ?case by simp
next
  case (Cons r rs)
  show ?case
  proof (cases "\<not> DeleteShared plan \<and> RiskLevel r \<noteq> RiskLevelSafe")
    case True
    then show ?thesis
      using Cons.IH by (simp add: outcomeError_def)
  next
    case False
    obtain e w' where dr: "deleteResource d r w = (e, w')"
      by (cases "deleteResource d r w")
    show ?thesis
      using False dr Cons.IH by (cases e) (auto simp: outcomeError_def)
  qed
qed

text \<open>
  C5. In real mode, once the worker delete has succeeded, the loop gives every planned
  resource an outcome, in plan order, whatever happened to the resources before it: the
  names of the deleted ones are \<open>ResourcesDeleted\<close>, the names of the others (skipped by
  policy, or failed) are \<open>ResourcesSkipped\<close>, the errors of the failed ones are \<open>Errors\<close>,
  all in plan order. \<open>Execute\<close> returns with a nil error, the success flag is true iff no
  error was recorded, and the calls issued after the worker delete are the delete calls of
  all resources the policy lets through, failures before them or not.
\<close>

theorem Execute_partial_failure:
  assumes "\<not> dryRun d"
    and "DeleteWorker (client d) (Name (Worker plan)) w = (None, w1)"
  shows "snd (fst (Execute d plan w)) = None
    \<and> WorkerDeleted (fst (fst (Execute d plan w)))
    \<and> map fst (outcomes d plan (ResourcesToDelete plan) w1) = ResourcesToDelete plan
    \<and> ResourcesDeleted (fst (fst (Execute d plan w))) =
        map (ResourceName \<circ> fst)
          (filter (\<lambda>x. snd x = Deleted) (outcomes d plan (ResourcesToDelete plan) w1))
    \<and> ResourcesSkipped (fst (fst (Execute d plan w))) =
        map (ResourceName \<circ> fst)
          (filter (\<lambda>x. snd x \<noteq> Deleted) (outcomes d plan (ResourcesToDelete plan) w1))
    \<and> Errors (fst (fst (Execute d plan w))) =
        List.map_filter outcomeError (outcomes d plan (ResourcesToDelete plan) w1)
    \<and> (Success (fst (fst (Execute d plan w))) \<longleftrightarrow> Errors (fst (fst (Execute d plan w))) = [])
    \<and> snd (snd (Execute d plan w)) =
        snd w1 @ concat (map resourceCalls
          (filter (\<lambda>r. DeleteShared plan \<or> RiskLevel r = RiskLevelSafe) (ResourcesToDelete plan)))"
proof -
  define res0 :: "'b DeletionResult" where
    "res0 = \<lparr>Success = True, WorkerDeleted = True, ResourcesDeleted = [],
             ResourcesSkipped = [], Errors = []\<rparr>"
  obtain res2 w2 where run: "deleteResources d plan (ResourcesToDelete plan) res0 w1 = (res2, w2)"
    by (cases "deleteResources d plan (ResourcesToDelete plan) res0 w1")
  have ex: "Execute d plan w =
      ((if length (Errors res2) > 0 then res2\<lparr>Success := False\<rparr> else res2, None), w2)"
    using assms run by (simp add: Execute_def res0_def)
  have r2: "res2 = res0\<lparr>ResourcesDeleted := ResourcesDeleted res0 @
            map (ResourceName \<circ> fst) (filter (\<lambda>x. snd x = Deleted)
              (outcomes d plan (ResourcesToDelete plan) w1)),
         ResourcesSkipped := ResourcesSkipped res0 @
            map (ResourceName \<circ> fst) (filter (\<lambda>x. snd x \<noteq> Deleted)
              (outcomes d plan (ResourcesToDelete plan) w1)),
         Errors := Errors res0 @ List.map_filter outcomeError
              (outcomes d plan (ResourcesToDelete plan) w1)\<rparr>"
    using deleteResources_result [of d plan "ResourcesToDelete plan" res0 w1] run by simp
  have lg: "snd w2 = snd w1 @ concat (map resourceCalls
          (filter (\<lambda>r. DeleteShared plan \<or> RiskLevel r = RiskLevelSafe) (ResourcesToDelete plan)))"
    using deleteResources_log [of d plan "ResourcesToDelete plan" res0 w1] run by simp
  show ?thesis
    unfolding ex using r2 lg by (simp add: res0_def outcomes_map_fst)
qed


text \<open>The namespace is already gone and its delete fails; the database after it is
  deleted all the same.\<close>

theorem Execute_partial_failure_witness:
  "\<not> dryRun \<lparr>client = exampleClient, dryRun = False\<rparr>
   \<and> DeleteWorker (client \<lparr>client = exampleClient, dryRun = False\<rparr>)
       (Name (Worker (examplePlan [sessionsUsage, ledgerUsage] True)))
       ([''billing-svc'', ''db-7''], []) = (None, ([''db-7''], [DeleteWorkerCall ''billing-svc'']))
   \<and> outcomes \<lparr>client = exampleClient, dryRun = False\<rparr>
       (examplePlan [sessionsUsage, ledgerUsage] True) [sessionsUsage, ledgerUsage]
       ([''db-7''], [DeleteWorkerCall ''billing-svc'']) =
       [(sessionsUsage, Failed (Errorf ''failed to delete KV namespace: '' (Remote NotFound))),
        (ledgerUsage, Deleted)]
   \<and> ResourcesDeleted (fst (fst (Execute \<lparr>client = exampleClient, dryRun = False\<rparr>
       (examplePlan [sessionsUsage, ledgerUsage] True) ([''billing-svc'', ''db-7''], []))))
       = [''ledger'']
   \<and> ResourcesSkipped (fst (fst (Execute \<lparr>client = exampleClient, dryRun = False\<rparr>
       (examplePlan [sessionsUsage, ledgerUsage] True) ([''billing-svc'', ''db-7''], []))))
       = [''sessions'']
   \<and> Errors (fst (fst (Execute \<lparr>client = exampleClient, dryRun = False\<rparr>
       (examplePlan [sessionsUsage, ledgerUsage] True) ([''billing-svc'', ''db-7''], []))))
       = [Errorf ''failed to delete KV namespace: '' (Remote NotFound)]
   \<and> Success (fst (fst (Execute \<lparr>client = exampleClient, dryRun = False\<rparr>
       (examplePlan [sessionsUsage, ledgerUsage] True) ([''billing-svc'', ''db-7''], [])))) = False
   \<and> snd (snd (Execute \<lparr>client = exampleClient, dryRun = False\<rparr>
       (examplePlan [sessionsUsage, ledgerUsage] True) ([''billing-svc'', ''db-7''], [])))
       = [DeleteWorkerCall ''billing-svc'', DeleteKVNamespaceCall ''ns-1'',
          DeleteD1DatabaseCall ''db-7'']"
proof -
  have h1: "\<not> dryRun \<lparr>client = exampleClient, dryRun = False\<rparr>"
    by simp
  have h2: "DeleteWorker (client \<lparr>client = exampleClient, dryRun = False\<rparr>)
       (Name (Worker (examplePlan [sessionsUsage, ledgerUsage] True)))
       ([''billing-svc'', ''db-7''], []) = (None, ([''db-7''], [DeleteWorkerCall ''billing-svc'']))"
    by code_simp
  have outs: "outcomes \<lparr>client = exampleClient, dryRun = False\<rparr>
       (examplePlan [sessionsUsage, ledgerUsage] True) [sessionsUsage, ledgerUsage]
       ([''db-7''], [DeleteWorkerCall ''billing-svc'']) =
       [(sessionsUsage, Failed (Errorf ''failed to delete KV namespace: '' (Remote NotFound))),
        (ledgerUsage, Deleted)]"
    by code_simp
  have plan: "ResourcesToDelete (examplePlan [sessionsUsage, ledgerUsage] True)
       = [sessionsUsage, ledgerUsage]"
    "DeleteShared (examplePlan [sessionsUsage, ledgerUsage] True)"
    by (simp_all add: examplePlan_def)
  have names: "ResourceName sessionsUsage = ''sessions''" "ResourceName ledgerUsage = ''ledger''"
    "resourceCalls sessionsUsage = [DeleteKVNamespaceCall ''ns-1'']"
    "resourceCalls ledgerUsage = [DeleteD1DatabaseCall ''db-7'']"
    by (simp_all add: sessionsUsage_def ledgerUsage_def exampleUsage_def resourceCalls_def
        BindingType_defs)
  show ?thesis
    using h1 h2 outs Execute_partial_failure [OF h1 h2]
    by (simp add: plan names outcomeError_def)
qed

lemma deleteResources_append:
  "deleteResources d plan (xs @ ys) res w =
     deleteResources d plan ys (fst (deleteResources d plan xs res w))
       (snd (deleteResources d plan xs res w))"
  by (induction xs arbitrary: res w) (auto split: prod.splits option.splits)

lemma deleteResources_world:
  "snd (deleteResources d plan rs res w) = snd (deleteResources d plan rs res' w)"
  by (induction rs arbitrary: res res' w) (auto split: prod.splits option.splits)

lemma outcomes_append:
  "outcomes d plan (xs @ ys) w =
     outcomes d plan xs w @ outcomes d plan ys (snd (deleteResources d plan xs res w))"
proof (induction xs arbitrary: res w)
  case Nil
  then show ?case by simp
next
  case (Cons x xs)
  show ?case
  proof (cases "\<not> DeleteShared plan \<and> RiskLevel x \<noteq> RiskLevelSafe")
    case True
    then show ?thesis using Cons.IH by simp
  next
    case False
    obtain e w' where dr: "deleteResource d x w = (e, w')"
      by (cases "deleteResource d x w")
    show ?thesis
      using False dr Cons.IH by (cases e) auto
  qed
qed


text \<open>
  C6, as stated, fails: the worker exists, the namespace is already gone, the library
  answers the namespace delete with \<open>NotFound\<close>, and \<open>Execute\<close> records the wrapped error,
  marks the namespace skipped and reports failure.
\<close>

theorem Execute_not_found_counterexample:
  "Execute \<lparr>client = exampleClient, dryRun = False\<rparr> (examplePlan [sessionsUsage] True)
       ([''billing-svc''], []) =
     ((\<lparr>Success = False, WorkerDeleted = True, ResourcesDeleted = [],
        ResourcesSkipped = [''sessions''],
        Errors = [Errorf ''failed to delete KV namespace: '' (Remote NotFound)]\<rparr>, None),
      ([], [DeleteWorkerCall ''billing-svc'', DeleteKVNamespaceCall ''ns-1'']))"
  by code_simp

lemma deleteResource_failure:
  assumes "ResourceType r = BindingTypeKV
        \<and> fst (cfDeleteWorkersKVNamespace (client d) (accountID (client d)) (ResourceID r) (fst w)) = Some e
      \<or> ResourceType r = BindingTypeR2
        \<and> fst (cfDeleteR2Bucket (client d) (accountID (client d)) (ResourceID r) (fst w)) = Some e
      \<or> ResourceType r = BindingTypeD1
        \<and> fst (cfDeleteD1Database (client d) (accountID (client d)) (ResourceID r) (fst w)) = Some e"
  shows "\<exists>msg. fst (deleteResource d r w) = Some (Errorf msg (Remote e))"
  using assms
  by (auto simp: deleteResource_def DeleteKVNamespace_def DeleteR2Bucket_def
      DeleteD1Database_def BindingType_defs split: prod.splits option.splits)

lemma outcomes_failed:
  assumes "DeleteShared plan \<or> RiskLevel r = RiskLevelSafe"
    and "fst (deleteResource d r (snd (deleteResources d plan pre res w))) = Some err"
  shows "(r, Failed err) \<in> set (outcomes d plan (pre @ r # post) w)"
proof -
  obtain w' where "deleteResource d r (snd (deleteResources d plan pre res w)) = (Some err, w')"
    using assms(2) by (cases "deleteResource d r (snd (deleteResources d plan pre res w))") simp
  then show ?thesis
    using assms(1) by (auto simp: outcomes_append [where res = res])
qed

text \<open>
  C6, amended. No delete wrapper and no step of \<open>Execute\<close> looks at the kind of a library
  error: every failed delete call is surfaced, "not found" included. If the worker delete is
  answered with an error \<open>e\<close> (of any kind), \<open>Execute\<close> stops and returns the wrapped error
  with success and worker-deleted false. If the worker delete succeeds and the delete call
  of a planned KV namespace, R2 bucket or D1 database, issued in its turn and not held back
  by policy, is answered with \<open>e\<close>, then a wrapped \<open>e\<close> is recorded in \<open>Errors\<close>, the
  resource's name is in \<open>ResourcesSkipped\<close> and success is false.
\<close>

theorem Execute_not_found_is_failure:
  assumes "\<not> dryRun d"
  shows "(cfDeleteWorker (client d) (accountID (client d)) (Name (Worker plan)) (fst w) = (Some e, s')
          \<longrightarrow> \<not> Success (fst (fst (Execute d plan w)))
            \<and> \<not> WorkerDeleted (fst (fst (Execute d plan w)))
            \<and> snd (fst (Execute d plan w)) = Some (Errorf ''failed to delete worker: '' (Remote e)))
    \<and> (DeleteWorker (client d) (Name (Worker plan)) w = (None, wB)
        \<and> ResourcesToDelete plan = pre @ r # post
        \<and> (DeleteShared plan \<or> RiskLevel r = RiskLevelSafe)
        \<and> snd (deleteResources d plan pre res wB) = wA
        \<and> (ResourceType r = BindingTypeKV
              \<and> fst (cfDeleteWorkersKVNamespace (client d) (accountID (client d)) (ResourceID r)
                    (fst wA)) = Some e
            \<or> ResourceType r = BindingTypeR2
              \<and> fst (cfDeleteR2Bucket (client d) (accountID (client d)) (ResourceID r)
                    (fst wA)) = Some e
            \<or> ResourceType r = BindingTypeD1
              \<and> fst (cfDeleteD1Database (client d) (accountID (client d)) (ResourceID r)
                    (fst wA)) = Some e)
          \<longrightarrow> (\<exists>msg. Errorf msg (Remote e) \<in> set (Errors (fst (fst (Execute d plan w)))))
            \<and> ResourceName r \<in> set (ResourcesSkipped (fst (fst (Execute d plan w))))
            \<and> \<not> Success (fst (fst (Execute d plan w))))"
proof (intro conjI impI)
  assume "cfDeleteWorker (client d) (accountID (client d)) (Name (Worker plan)) (fst w) = (Some e, s')"
  then have ex: "Execute d plan w =
     ((\<lparr>Success = False, WorkerDeleted = False, ResourcesDeleted = [], ResourcesSkipped = [],
        Errors = [Errorf ''failed to delete worker: ''
                    (Errorf ''failed to delete worker: '' (Remote e))]\<rparr>,
       Some (Errorf ''failed to delete worker: '' (Remote e))),
      (s', snd w @ [DeleteWorkerCall (Name (Worker plan))]))"
    using assms by (simp add: Execute_def DeleteWorker_def)
  show "\<not> Success (fst (fst (Execute d plan w)))"
    and "\<not> WorkerDeleted (fst (fst (Execute d plan w)))"
    and "snd (fst (Execute d plan w)) = Some (Errorf ''failed to delete worker: '' (Remote e))"
    by (simp_all add: ex)
next
  assume h: "DeleteWorker (client d) (Name (Worker plan)) w = (None, wB)
        \<and> ResourcesToDelete plan = pre @ r # post
        \<and> (DeleteShared plan \<or> RiskLevel r = RiskLevelSafe)
        \<and> snd (deleteResources d plan pre res wB) = wA
        \<and> (ResourceType r = BindingTypeKV
              \<and> fst (cfDeleteWorkersKVNamespace (client d) (accountID (client d)) (ResourceID r)
                    (fst wA)) = Some e
            \<or> ResourceType r = BindingTypeR2
              \<and> fst (cfDeleteR2Bucket (client d) (accountID (client d)) (ResourceID r)
                    (fst wA)) = Some e
            \<or> ResourceType r = BindingTypeD1
              \<and> fst (cfDeleteD1Database (client d) (accountID (client d)) (ResourceID r)
                    (fst wA)) = Some e)"
  define res0 :: "'b DeletionResult" where
    "res0 = \<lparr>Success = True, WorkerDeleted = True, ResourcesDeleted = [],
             ResourcesSkipped = [], Errors = []\<rparr>"
  define outs where "outs = outcomes d plan (ResourcesToDelete plan) wB"
  obtain res2 w2 where run: "deleteResources d plan (ResourcesToDelete plan) res0 wB = (res2, w2)"
    by (cases "deleteResources d plan (ResourcesToDelete plan) res0 wB")
  have ex: "Execute d plan w =
      ((if length (Errors res2) > 0 then res2\<lparr>Success := False\<rparr> else res2, None), w2)"
    using assms h run by (simp add: Execute_def res0_def)
  have errs: "Errors res2 = List.map_filter outcomeError outs"
    and skipped: "ResourcesSkipped res2 =
        map (ResourceName \<circ> fst) (filter (\<lambda>x. snd x \<noteq> Deleted) outs)"
    using deleteResources_result [of d plan "ResourcesToDelete plan" res0 wB] run
    by (simp_all add: res0_def outs_def)
  obtain msg where msg: "fst (deleteResource d r wA) = Some (Errorf msg (Remote e))"
    using deleteResource_failure [of r d wA e] h by blast
  have "snd (deleteResources d plan pre res0 wB) = wA"
    using h deleteResources_world [of d plan pre res0 wB res] by simp
  then have mem: "(r, Failed (Errorf msg (Remote e))) \<in> set outs"
    using outcomes_failed [of plan r d pre res0 wB "Errorf msg (Remote e)" post] h msg
    by (simp add: outs_def)
  have e_mem: "Errorf msg (Remote e) \<in> set (Errors res2)"
    unfolding errs List.map_filter_def using mem by (force simp: outcomeError_def)
  have s_mem: "ResourceName r \<in> set (ResourcesSkipped res2)"
    unfolding skipped using mem by force
  have ne: "Errors res2 \<noteq> []"
    using e_mem by auto
  show "\<exists>msg. Errorf msg (Remote e) \<in> set (Errors (fst (fst (Execute d plan w))))"
    using e_mem ne by (auto simp: ex)
  show "ResourceName r \<in> set (ResourcesSkipped (fst (fst (Execute d plan w))))"
    using s_mem ne by (simp add: ex)
  show "\<not> Success (fst (fst (Execute d plan w)))"
    using ne by (simp add: ex)
qed


text \<open>Both halves with \<open>NotFound\<close> as the error: a worker that is already gone, and a
  namespace that is already gone behind a database that is still there.\<close>

theorem Execute_not_found_is_failure_witness:
  "Success (fst (fst (Execute \<lparr>client = exampleClient, dryRun = False\<rparr>
       (examplePlan [ledgerUsage, sessionsUsage] True) ([], [])))) = False
   \<and> snd (fst (Execute \<lparr>client = exampleClient, dryRun = False\<rparr>
       (examplePlan [ledgerUsage, sessionsUsage] True) ([], [])))
       = Some (Errorf ''failed to delete worker: '' (Remote NotFound))
   \<and> (\<exists>msg. Errorf msg (Remote NotFound) \<in> set (Errors (fst (fst
       (Execute \<lparr>client = exampleClient, dryRun = False\<rparr>
          (examplePlan [ledgerUsage, sessionsUsage] True) ([''billing-svc'', ''db-7''], []))))))
   \<and> ''sessions'' \<in> set (ResourcesSkipped (fst (fst
       (Execute \<lparr>client = exampleClient, dryRun = False\<rparr>
          (examplePlan [ledgerUsage, sessionsUsage] True) ([''billing-svc'', ''db-7''], [])))))
   \<and> Success (fst (fst (Execute \<lparr>client = exampleClient, dryRun = False\<rparr>
       (examplePlan [ledgerUsage, sessionsUsage] True) ([''billing-svc'', ''db-7''], []))))
       = False"
proof -
  let ?d = "\<lparr>client = exampleClient, dryRun = False\<rparr> :: (string list, remote_failure) Deleter"
  let ?plan = "examplePlan [ledgerUsage, sessionsUsage] True"
  let ?res = "\<lparr>Success = True, WorkerDeleted = True, ResourcesDeleted = [],
               ResourcesSkipped = [], Errors = []\<rparr> :: remote_failure DeletionResult"
  have h1: "\<not> dryRun ?d"
    by simp
  have worker: "cfDeleteWorker (client ?d) (accountID (client ?d)) (Name (Worker ?plan))
        (fst ([], ([]::call list))) = (Some NotFound, [])"
    by code_simp
  have resource: "DeleteWorker (client ?d) (Name (Worker ?plan)) ([''billing-svc'', ''db-7''], [])
          = (None, ([''db-7''], [DeleteWorkerCall ''billing-svc'']))
        \<and> ResourcesToDelete ?plan = [ledgerUsage] @ sessionsUsage # []
        \<and> (DeleteShared ?plan \<or> RiskLevel sessionsUsage = RiskLevelSafe)
        \<and> snd (deleteResources ?d ?plan [ledgerUsage] ?res
               ([''db-7''], [DeleteWorkerCall ''billing-svc'']))
            = ([], [DeleteWorkerCall ''billing-svc'', DeleteD1DatabaseCall ''db-7''])
        \<and> (ResourceType sessionsUsage = BindingTypeKV
              \<and> fst (cfDeleteWorkersKVNamespace (client ?d) (accountID (client ?d))
                    (ResourceID sessionsUsage)
                    (fst ([], [DeleteWorkerCall ''billing-svc'', DeleteD1DatabaseCall ''db-7''])))
                  = Some NotFound
            \<or> ResourceType sessionsUsage = BindingTypeR2
              \<and> fst (cfDeleteR2Bucket (client ?d) (accountID (client ?d))
                    (ResourceID sessionsUsage)
                    (fst ([], [DeleteWorkerCall ''billing-svc'', DeleteD1DatabaseCall ''db-7''])))
                  = Some NotFound
            \<or> ResourceType sessionsUsage = BindingTypeD1
              \<and> fst (cfDeleteD1Database (client ?d) (accountID (client ?d))
                    (ResourceID sessionsUsage)
                    (fst ([], [DeleteWorkerCall ''billing-svc'', DeleteD1DatabaseCall ''db-7''])))
                  = Some NotFound)"
    by code_simp
  have name: "ResourceName sessionsUsage = ''sessions''"
    by (simp add: sessionsUsage_def exampleUsage_def)
  show ?thesis
    using Execute_not_found_is_failure [OF h1, where plan = ?plan and w = "([], [])"
        and e = NotFound and s' = "[]" and pre = "[]" and r = sessionsUsage and post = "[]"
        and wB = "([], [])" and res = ?res and wA = "([], [])"]
      Execute_not_found_is_failure [OF h1, where plan = ?plan
        and w = "([''billing-svc'', ''db-7''], [])" and e = NotFound and s' = "[]"
        and wB = "([''db-7''], [DeleteWorkerCall ''billing-svc''])"
        and pre = "[ledgerUsage]" and r = sessionsUsage and post = "[]" and res = ?res
        and wA = "([], [DeleteWorkerCall ''billing-svc'', DeleteD1DatabaseCall ''db-7''])"]
      worker resource name
    by simp
qed


section \<open>Properties of the analysis\<close>


lemma getResourceKey_kv:
  "getResourceKey b = ''kv:'' @ x \<longleftrightarrow> BType b = BindingTypeKV \<and> NamespaceID b = x"
  by (simp add: getResourceKey_def BindingType_defs)

lemma getResourceKey_r2:
  "getResourceKey b = ''r2:'' @ x \<longleftrightarrow> BType b = BindingTypeR2 \<and> BucketName b = x"
  by (simp add: getResourceKey_def BindingType_defs)

lemma getResourceKey_d1:
  "getResourceKey b = ''d1:'' @ x \<longleftrightarrow> BType b = BindingTypeD1 \<and> DatabaseID b = x"
  by (simp add: getResourceKey_def BindingType_defs)

lemma same_key_same_resource:
  assumes "getResourceKey b' = getResourceKey b"
    and "BType b \<in> {BindingTypeKV, BindingTypeR2, BindingTypeD1}"
  shows "BType b' = BType b \<and> getResourceID b' = getResourceID b"
proof -
  consider "BType b = BindingTypeKV" | "BType b = BindingTypeR2" | "BType b = BindingTypeD1"
    using assms(2) by auto
  then show ?thesis
  proof cases
    case 1
    then have "getResourceKey b = ''kv:'' @ NamespaceID b"
      by (simp add: getResourceKey_def)
    then have "BType b' = BindingTypeKV \<and> NamespaceID b' = NamespaceID b"
      using assms(1) getResourceKey_kv [of b' "NamespaceID b"] by simp
    then show ?thesis using 1 by (simp add: getResourceID_def)
  next
    case 2
    then have "getResourceKey b = ''r2:'' @ BucketName b"
      by (simp add: getResourceKey_def BindingType_defs)
    then have "BType b' = BindingTypeR2 \<and> BucketName b' = BucketName b"
      using assms(1) getResourceKey_r2 [of b' "BucketName b"] by simp
    then show ?thesis using 2 by (simp add: getResourceID_def BindingType_defs)
  next
    case 3
    then have "getResourceKey b = ''d1:'' @ DatabaseID b"
      by (simp add: getResourceKey_def BindingType_defs)
    then have "BType b' = BindingTypeD1 \<and> DatabaseID b' = DatabaseID b"
      using assms(1) getResourceKey_d1 [of b' "DatabaseID b"] by simp
    then show ?thesis using 3 by (simp add: getResourceID_def BindingType_defs)
  qed
qed

lemma indexSound_empty: "indexSound Map.empty"
  by (simp add: indexSound_def)

lemma indexSound_addBinding:
  assumes "indexSound m"
  shows "indexSound (addBinding name m b)"
  unfolding indexSound_def
proof (intro allI impI)
  fix k u
  assume h: "addBinding name m b k = Some u"
  show "k \<noteq> '''' \<and> (\<exists>b. getResourceKey b = k \<and> ResourceID u = getResourceID b
                            \<and> ResourceType u = BType b)"
  proof (cases "getResourceKey b = '''' \<or> k \<noteq> getResourceKey b")
    case True
    then have "m k = Some u"
      using h by (auto simp: addBinding_def Let_def split: if_splits)
    then show ?thesis using assms by (simp add: indexSound_def)
  next
    case False
    then have k: "k = getResourceKey b" "getResourceKey b \<noteq> ''''" by auto
    show ?thesis
    proof (cases "m k")
      case None
      then have "ResourceID u = getResourceID b \<and> ResourceType u = BType b"
        using h k by (auto simp: addBinding_def Let_def)
      then show ?thesis using k by auto
    next
      case (Some u0)
      then have "ResourceID u = ResourceID u0 \<and> ResourceType u = ResourceType u0"
        using h k by (auto simp: addBinding_def Let_def)
      moreover have "k \<noteq> '''' \<and> (\<exists>b. getResourceKey b = k \<and> ResourceID u0 = getResourceID b
                            \<and> ResourceType u0 = BType b)"
        using assms Some by (simp add: indexSound_def)
      ultimately show ?thesis by simp
    qed
  qed
qed

lemma indexSound_scanBindings:
  "indexSound m \<Longrightarrow> indexSound (scanBindings name m bs)"
  by (induction bs arbitrary: m) (simp_all add: indexSound_addBinding)

lemma indexSound_scanWorkers:
  "indexSound m \<Longrightarrow> indexSound (fst (scanWorkers c m ws w))"
proof (induction ws arbitrary: m w)
  case Nil
  then show ?case by simp
next
  case (Cons x xs)
  obtain r w' where gw: "GetWorker c (Name x) w = (r, w')"
    by (cases "GetWorker c (Name x) w")
  show ?case
  proof (cases r)
    case (Inl e)
    then show ?thesis using gw Cons by simp
  next
    case (Inr full)
    then show ?thesis
      using gw Cons.IH [OF indexSound_scanBindings [OF Cons.prems]] by simp
  qed
qed


lemma entryFor_update:
  assumes "m k = Some old"
  shows "entryFor t (m(k \<mapsto> old\<lparr>ResourceName := n, RiskLevel := r\<rparr>)) = entryFor t m"
  using assms by (auto simp: entryFor_def fun_eq_iff split: option.splits)

lemma calculateRiskLevel_target_only:
  "set usedBy \<subseteq> {t} \<Longrightarrow> calculateRiskLevel usedBy t = RiskLevelSafe"
proof -
  assume "set usedBy \<subseteq> {t}"
  then have "filter (\<lambda>w. w \<noteq> t) usedBy = []"
    by (auto simp: filter_empty_conv)
  then show ?thesis
    by (simp add: calculateRiskLevel_occurrences)
qed

lemma targetResources_entries:
  "\<exists>res'. fst (targetResources c t m acc bs w) = acc @ res'
      \<and> list_all2 (entryFor t m) (filter (\<lambda>b. getResourceKey b \<noteq> '''') bs) res'"
proof (induction bs arbitrary: m acc w)
  case Nil
  then show ?case by simp
next
  case (Cons b bs)
  show ?case
  proof (cases "getResourceKey b = ''''")
    case True
    then show ?thesis using Cons.IH [of m acc w] by simp
  next
    case False
    define usage0 where "usage0 = (case m (getResourceKey b) of
                            Some u \<Rightarrow> u
                          | None \<Rightarrow>
                              \<lparr>ResourceID = getResourceID b, ResourceType = BType b,
                               ResourceName = getResourceName b,
                               UsedBy = [Name t], RiskLevel = RiskLevelSafe\<rparr>)"
    define enriched where "enriched = enrichResourceName c b (ResourceName usage0) w"
    define usage where "usage = usage0\<lparr>ResourceName := fst enriched,
                          RiskLevel := calculateRiskLevel (UsedBy usage0) (Name t)\<rparr>"
    define m' where "m' = (if m (getResourceKey b) = None then m
                                else m(getResourceKey b \<mapsto> usage))"
    have step: "targetResources c t m acc (b # bs) w =
        targetResources c t m' (acc @ [usage]) bs (snd enriched)"
      using False by (simp add: Let_def usage0_def enriched_def usage_def m'_def)
    have same: "entryFor t m' = entryFor t m"
    proof (cases "m (getResourceKey b)")
      case None
      then show ?thesis by (simp add: m'_def)
    next
      case (Some u0)
      then have "usage0 = u0" by (simp add: usage0_def)
      then show ?thesis
        using Some entryFor_update [where m = m and k = "getResourceKey b" and old = u0
            and t = t and n = "fst enriched" and r = "calculateRiskLevel (UsedBy u0) (Name t)"]
        by (simp add: m'_def usage_def)
    qed
    have here: "entryFor t m b usage"
    proof (cases "m (getResourceKey b)")
      case None
      then show ?thesis
        by (simp add: entryFor_def usage_def usage0_def calculateRiskLevel_target_only)
    next
      case (Some u0)
      then show ?thesis
        by (simp add: entryFor_def usage_def usage0_def)
    qed
    obtain res' where res': "fst (targetResources c t m' (acc @ [usage]) bs (snd enriched))
          = (acc @ [usage]) @ res'"
        "list_all2 (entryFor t m') (filter (\<lambda>b. getResourceKey b \<noteq> '''') bs) res'"
      using Cons.IH [of m' "acc @ [usage]" "snd enriched"] by blast
    have "fst (targetResources c t m acc (b # bs) w) = acc @ (usage # res')"
      using step res'(1) by simp
    moreover have "list_all2 (entryFor t m)
        (filter (\<lambda>b. getResourceKey b \<noteq> '''') (b # bs)) (usage # res')"
      using False here res'(2) same by simp
    ultimately show ?thesis by blast
  qed
qed

lemma AnalyzeDependencies_Inr:
  assumes "AnalyzeDependencies c t w = (Inr res, w3)"
  shows "\<exists>allWorkers wa index wb.
      ListWorkers c w = (Inr allWorkers, wa)
      \<and> scanWorkers c Map.empty allWorkers wa = (index, wb)
      \<and> targetResources c t index [] (Bindings t) wb = (res, w3)"
  using assms
  by (auto simp: AnalyzeDependencies_def split: prod.splits sum.splits)

lemma AnalyzeDependencies_entries:
  assumes "AnalyzeDependencies c t w = (Inr res, w3)"
  shows "\<exists>index. indexSound index
      \<and> list_all2 (entryFor t index) (filter (\<lambda>b. getResourceKey b \<noteq> '''') (Bindings t)) res"
proof -
  obtain allWorkers wa index wb where
    scan: "scanWorkers c Map.empty allWorkers wa = (index, wb)"
    and tr: "targetResources c t index [] (Bindings t) wb = (res, w3)"
    using AnalyzeDependencies_Inr [OF assms] by blast
  have "indexSound index"
    using indexSound_scanWorkers [OF indexSound_empty, of c allWorkers wa] scan by simp
  moreover have "list_all2 (entryFor t index)
      (filter (\<lambda>b. getResourceKey b \<noteq> '''') (Bindings t)) res"
    using targetResources_entries [of c t index "[]" "Bindings t" wb] tr by simp
  ultimately show ?thesis by blast
qed


text \<open>
  C8. Let the scan have built \<open>index\<close>. Then the analysis returns a list with one entry per
  keyed binding of the target, and the entry of every binding whose key is absent from the
  index is the minimal one: its users are the target alone, its level is Safe, its identity
  is the binding's. An empty usage list, and one that names only the target, classify as
  Safe.
\<close>

theorem AnalyzeDependencies_untracked_is_safe:
  assumes "ListWorkers c w = (Inr allWorkers, wa)"
    and "scanWorkers c Map.empty allWorkers wa = (index, wb)"
  shows "(\<exists>res wc. AnalyzeDependencies c t w = (Inr res, wc)
            \<and> list_all2 (\<lambda>b u. index (getResourceKey b) = None \<longrightarrow>
                  UsedBy u = [Name t] \<and> RiskLevel u = RiskLevelSafe
                  \<and> ResourceID u = getResourceID b \<and> ResourceType u = BType b)
                (filter (\<lambda>b. getResourceKey b \<noteq> '''') (Bindings t)) res)
    \<and> calculateRiskLevel [] (Name t) = RiskLevelSafe
    \<and> calculateRiskLevel [Name t] (Name t) = RiskLevelSafe
    \<and> (\<forall>usedBy. set usedBy \<subseteq> {Name t} \<longrightarrow> calculateRiskLevel usedBy (Name t) = RiskLevelSafe)"
proof (intro conjI)
  obtain res wc where tr: "targetResources c t index [] (Bindings t) wb = (res, wc)"
    by (cases "targetResources c t index [] (Bindings t) wb")
  have run: "AnalyzeDependencies c t w = (Inr res, wc)"
    using assms tr by (simp add: AnalyzeDependencies_def)
  have "list_all2 (entryFor t index) (filter (\<lambda>b. getResourceKey b \<noteq> '''') (Bindings t)) res"
    using targetResources_entries [of c t index "[]" "Bindings t" wb] tr by simp
  then have "list_all2 (\<lambda>b u. index (getResourceKey b) = None \<longrightarrow>
                  UsedBy u = [Name t] \<and> RiskLevel u = RiskLevelSafe
                  \<and> ResourceID u = getResourceID b \<and> ResourceType u = BType b)
                (filter (\<lambda>b. getResourceKey b \<noteq> '''') (Bindings t)) res"
    by (rule list_all2_mono) (auto simp: entryFor_def)
  then show "\<exists>res wc. AnalyzeDependencies c t w = (Inr res, wc)
            \<and> list_all2 (\<lambda>b u. index (getResourceKey b) = None \<longrightarrow>
                  UsedBy u = [Name t] \<and> RiskLevel u = RiskLevelSafe
                  \<and> ResourceID u = getResourceID b \<and> ResourceType u = BType b)
                (filter (\<lambda>b. getResourceKey b \<noteq> '''') (Bindings t)) res"
    using run by blast
qed (simp_all add: calculateRiskLevel_target_only)

text \<open>The scan finds no worker, so the index is empty and both resources of
  \<open>billing-svc\<close> get the minimal entry.\<close>

theorem AnalyzeDependencies_untracked_is_safe_witness:
  "ListWorkers emptyClient ([''billing-svc''], []) = (Inr [], ([''billing-svc''], [ListWorkersCall]))
   \<and> scanWorkers emptyClient Map.empty [] ([''billing-svc''], [ListWorkersCall])
       = (Map.empty, ([''billing-svc''], [ListWorkersCall]))
   \<and> (\<exists>res wc. AnalyzeDependencies emptyClient billingWorker ([''billing-svc''], []) = (Inr res, wc)
         \<and> map UsedBy res = [[''billing-svc''], [''billing-svc'']]
         \<and> map RiskLevel res = [RiskLevelSafe, RiskLevelSafe]
         \<and> map ResourceID res = [''ns-1'', ''db-7''])
   \<and> calculateRiskLevel [''billing-svc'', ''billing-svc''] ''billing-svc'' = RiskLevelSafe"
proof -
  have h1: "ListWorkers emptyClient ([''billing-svc''], [])
      = (Inr [], ([''billing-svc''], [ListWorkersCall]))"
    by code_simp
  have h2: "scanWorkers emptyClient Map.empty [] ([''billing-svc''], [ListWorkersCall])
       = (Map.empty, ([''billing-svc''], [ListWorkersCall]))"
    by simp
  have keys: "filter (\<lambda>b. getResourceKey b \<noteq> '''') (Bindings billingWorker)
      = [kvBinding ''SESSIONS'' ''ns-1'', d1Binding ''DB'' ''db-7'']"
    by code_simp
  have ids: "getResourceID (kvBinding ''SESSIONS'' ''ns-1'') = ''ns-1''"
    "getResourceID (d1Binding ''DB'' ''db-7'') = ''db-7''"
    "Name billingWorker = ''billing-svc''"
    by code_simp+
  show ?thesis
    using h1 h2 AnalyzeDependencies_untracked_is_safe [OF h1 h2, of billingWorker]
    by (auto simp: keys ids list_all2_Cons1)
qed




lemma entryFor_identity:
  assumes "indexSound index" and "getResourceKey b \<noteq> ''''" and "entryFor t index b u"
  shows "\<exists>b0. getResourceKey b0 = getResourceKey b \<and> ResourceType u = BType b0
            \<and> ResourceID u = getResourceID b0"
proof (cases "index (getResourceKey b)")
  case None
  then show ?thesis using assms(3) by (auto simp: entryFor_def)
next
  case (Some u0)
  then obtain b0 where "getResourceKey b0 = getResourceKey b"
      "ResourceID u0 = getResourceID b0" "ResourceType u0 = BType b0"
    using assms(1) by (auto simp: indexSound_def)
  then show ?thesis using assms(3) Some by (auto simp: entryFor_def)
qed

lemma list_all2_set_left:
  "list_all2 R xs ys \<Longrightarrow> list_all2 (\<lambda>x y. x \<in> set xs \<and> R x y) xs ys"
proof (induction rule: list_all2_induct)
  case Nil
  then show ?case by simp
next
  case (Cons x xs y ys)
  have "list_all2 (\<lambda>x' y. x' \<in> set (x # xs) \<and> R x' y) xs ys"
    using Cons.IH by (rule list_all2_mono) simp
  then show ?case using Cons.hyps by simp
qed


lemma AnalyzeDependencies_identities:
  assumes "AnalyzeDependencies c t w = (Inr res, wc)"
  shows "list_all2 (\<lambda>b u. getResourceKey b \<noteq> '''' \<and>
            (\<exists>b0. getResourceKey b0 = getResourceKey b \<and> ResourceType u = BType b0
                \<and> ResourceID u = getResourceID b0))
          (filter (\<lambda>b. getResourceKey b \<noteq> '''') (Bindings t)) res"
proof -
  obtain index where ix: "indexSound index"
    and es: "list_all2 (entryFor t index) (filter (\<lambda>b. getResourceKey b \<noteq> '''') (Bindings t)) res"
    using AnalyzeDependencies_entries [OF assms] by blast
  have "list_all2 (\<lambda>b u. b \<in> set (filter (\<lambda>b. getResourceKey b \<noteq> '''') (Bindings t))
          \<and> entryFor t index b u)
      (filter (\<lambda>b. getResourceKey b \<noteq> '''') (Bindings t)) res"
    using es by (rule list_all2_set_left)
  then show ?thesis
  proof (rule list_all2_mono)
    fix b u
    assume "b \<in> set (filter (\<lambda>b. getResourceKey b \<noteq> '''') (Bindings t)) \<and> entryFor t index b u"
    then have "getResourceKey b \<noteq> ''''" and "entryFor t index b u"
      by simp_all
    then show "getResourceKey b \<noteq> '''' \<and>
            (\<exists>b0. getResourceKey b0 = getResourceKey b \<and> ResourceType u = BType b0
                \<and> ResourceID u = getResourceID b0)"
      using entryFor_identity [OF ix] by blast
  qed
qed



lemma planLoop_Worker: "Worker (planLoop ex rs plan) = Worker plan"
  by (induction rs arbitrary: plan) (auto simp: Let_def)

lemma Execute_log:
  assumes "\<not> dryRun d"
    and "DeleteWorker (client d) (Name (Worker plan)) w = (None, wb)"
  shows "snd (snd (Execute d plan w)) =
     snd wb @ concat (map resourceCalls
       (filter (\<lambda>r. DeleteShared plan \<or> RiskLevel r = RiskLevelSafe) (ResourcesToDelete plan)))"
proof -
  define res0 :: "'b DeletionResult" where
    "res0 = \<lparr>Success = True, WorkerDeleted = True, ResourcesDeleted = [],
             ResourcesSkipped = [], Errors = []\<rparr>"
  obtain res2 w2 where run: "deleteResources d plan (ResourcesToDelete plan) res0 wb = (res2, w2)"
    by (cases "deleteResources d plan (ResourcesToDelete plan) res0 wb")
  have "snd (Execute d plan w) = w2"
    using assms run by (simp add: Execute_def res0_def)
  then show ?thesis
    using deleteResources_log [of d plan "ResourcesToDelete plan" res0 wb] run by simp
qed

lemma count_calls:
  assumes "list_all2 R bs res"
    and "\<And>b u. R b u \<Longrightarrow> count_list (resourceCalls u) x = (if Q b then 1 else 0)"
  shows "count_list (concat (map resourceCalls res)) x = length (filter Q bs)"
  using assms by (induction rule: list_all2_induct) auto

lemma kv_calls:
  assumes "getResourceKey b0 = getResourceKey b" and "ResourceType u = BType b0"
    and "ResourceID u = getResourceID b0"
  shows "count_list (resourceCalls u) (DeleteKVNamespaceCall ns) =
     (if BType b = BindingTypeKV \<and> NamespaceID b = ns then 1 else 0)"
proof (cases "BType b0 = BindingTypeKV")
  case True
  then have "BType b = BType b0 \<and> getResourceID b = getResourceID b0"
    using same_key_same_resource [of b b0] assms(1) by simp
  then show ?thesis
    using True assms by (auto simp: resourceCalls_def getResourceID_def)
next
  case False
  have "BType b \<noteq> BindingTypeKV"
  proof
    assume "BType b = BindingTypeKV"
    then have "BType b0 = BType b"
      using same_key_same_resource [of b0 b] assms(1) by simp
    then show False using False \<open>BType b = BindingTypeKV\<close> by simp
  qed
  then show ?thesis
    using False assms by (simp add: resourceCalls_def)
qed

lemma r2_calls:
  assumes "getResourceKey b0 = getResourceKey b" and "ResourceType u = BType b0"
    and "ResourceID u = getResourceID b0"
  shows "count_list (resourceCalls u) (DeleteR2BucketCall bucket) =
     (if BType b = BindingTypeR2 \<and> BucketName b = bucket then 1 else 0)"
proof (cases "BType b0 = BindingTypeR2")
  case True
  then have "BType b = BType b0 \<and> getResourceID b = getResourceID b0"
    using same_key_same_resource [of b b0] assms(1) by simp
  then show ?thesis
    using True assms by (auto simp: resourceCalls_def getResourceID_def BindingType_defs)
next
  case False
  have "BType b \<noteq> BindingTypeR2"
  proof
    assume "BType b = BindingTypeR2"
    then have "BType b0 = BType b"
      using same_key_same_resource [of b0 b] assms(1) by simp
    then show False using False \<open>BType b = BindingTypeR2\<close> by simp
  qed
  then show ?thesis
    using False assms by (simp add: resourceCalls_def)
qed

lemma d1_calls:
  assumes "getResourceKey b0 = getResourceKey b" and "ResourceType u = BType b0"
    and "ResourceID u = getResourceID b0"
  shows "count_list (resourceCalls u) (DeleteD1DatabaseCall db) =
     (if BType b = BindingTypeD1 \<and> DatabaseID b = db then 1 else 0)"
proof (cases "BType b0 = BindingTypeD1")
  case True
  then have "BType b = BType b0 \<and> getResourceID b = getResourceID b0"
    using same_key_same_resource [of b b0] assms(1) by simp
  then show ?thesis
    using True assms by (auto simp: resourceCalls_def getResourceID_def BindingType_defs)
next
  case False
  have "BType b \<noteq> BindingTypeD1"
  proof
    assume "BType b = BindingTypeD1"
    then have "BType b0 = BType b"
      using same_key_same_resource [of b0 b] assms(1) by simp
    then show False using False \<open>BType b = BindingTypeD1\<close> by simp
  qed
  then show ?thesis
    using False assms by (simp add: resourceCalls_def)
qed

lemma filter_keyed:
  assumes "\<And>b. Q b \<Longrightarrow> getResourceKey b \<noteq> ''''"
  shows "filter Q (filter (\<lambda>b. getResourceKey b \<noteq> '''') bs) = filter Q bs"
  using assms by (induction bs) auto

lemma entryFor_same_key:
  assumes "entryFor t index b u" and "entryFor t index b' u'"
    and "getResourceKey b = getResourceKey b'"
  shows "RiskLevel u = RiskLevel u' \<and> UsedBy u = UsedBy u'"
  using assms by (auto simp: entryFor_def split: option.splits)

text \<open>
  C10, as stated, fails. \<open>reports-svc\<close> binds the namespace it shares with \<open>billing-svc\<close>
  three times, and the analysis has three entries for it; yet under \<open>exclusiveOnly\<close> the plan
  lists none of them, and under the default policy (\<open>DeleteShared\<close> off) the execution skips
  all three and issues no delete call for the namespace. \<open>link-svc\<close> links the same service
  twice: two entries, both reported deleted, and no delete call at all.
\<close>

theorem duplicate_bindings_counterexample:
  "fst (AnalyzeDependencies exampleClient reportsWorker
          ([''billing-svc'', ''reports-svc'', ''ns-1'', ''db-7''], [])) =
     Inr [exampleUsage ''ns-1'' BindingTypeKV ''SESSIONS''
            [''billing-svc'', ''reports-svc'', ''reports-svc'', ''reports-svc''] RiskLevelCaution,
          exampleUsage ''ns-1'' BindingTypeKV ''SESSIONS''
            [''billing-svc'', ''reports-svc'', ''reports-svc'', ''reports-svc''] RiskLevelCaution,
          exampleUsage ''ns-1'' BindingTypeKV ''SESSIONS''
            [''billing-svc'', ''reports-svc'', ''reports-svc'', ''reports-svc''] RiskLevelCaution]
   \<and> ResourcesToDelete (CreateDeletionPlan reportsWorker
         [exampleUsage ''ns-1'' BindingTypeKV ''SESSIONS''
            [''billing-svc'', ''reports-svc'', ''reports-svc'', ''reports-svc''] RiskLevelCaution,
          exampleUsage ''ns-1'' BindingTypeKV ''SESSIONS''
            [''billing-svc'', ''reports-svc'', ''reports-svc'', ''reports-svc''] RiskLevelCaution,
          exampleUsage ''ns-1'' BindingTypeKV ''SESSIONS''
            [''billing-svc'', ''reports-svc'', ''reports-svc'', ''reports-svc''] RiskLevelCaution]
         True) = []
   \<and> Execute \<lparr>client = exampleClient, dryRun = False\<rparr>
        (CreateDeletionPlan reportsWorker
         [exampleUsage ''ns-1'' BindingTypeKV ''SESSIONS''
            [''billing-svc'', ''reports-svc'', ''reports-svc'', ''reports-svc''] RiskLevelCaution,
          exampleUsage ''ns-1'' BindingTypeKV ''SESSIONS''
            [''billing-svc'', ''reports-svc'', ''reports-svc'', ''reports-svc''] RiskLevelCaution,
          exampleUsage ''ns-1'' BindingTypeKV ''SESSIONS''
            [''billing-svc'', ''reports-svc'', ''reports-svc'', ''reports-svc''] RiskLevelCaution]
         False)
        ([''billing-svc'', ''reports-svc'', ''ns-1'', ''db-7''], []) =
      ((\<lparr>Success = True, WorkerDeleted = True, ResourcesDeleted = [],
         ResourcesSkipped = [''SESSIONS'', ''SESSIONS'', ''SESSIONS''], Errors = []\<rparr>, None),
       ([''billing-svc'', ''ns-1'', ''db-7''], [DeleteWorkerCall ''reports-svc'']))
   \<and> fst (AnalyzeDependencies emptyClient linkWorker ([''link-svc''], [])) =
     Inr [exampleUsage ''auth-svc'' BindingTypeService ''auth-svc'' [''link-svc''] RiskLevelSafe,
          exampleUsage ''auth-svc'' BindingTypeService ''auth-svc'' [''link-svc''] RiskLevelSafe]
   \<and> Execute \<lparr>client = emptyClient, dryRun = False\<rparr>
        ((CreateDeletionPlan linkWorker
         [exampleUsage ''auth-svc'' BindingTypeService ''auth-svc'' [''link-svc''] RiskLevelSafe,
          exampleUsage ''auth-svc'' BindingTypeService ''auth-svc'' [''link-svc''] RiskLevelSafe]
         False)\<lparr>DeleteShared := True\<rparr>)
        ([''link-svc''], []) =
      ((\<lparr>Success = True, WorkerDeleted = True,
         ResourcesDeleted = [''auth-svc'', ''auth-svc''],
         ResourcesSkipped = [], Errors = []\<rparr>, None),
       ([], [DeleteWorkerCall ''link-svc'']))"
  by code_simp

text \<open>
  C10, amended. The analysis result has one entry per keyed binding of the target, in
  binding order, with no merging of bindings that name the same resource: the entry of a
  KV, R2 or D1 binding has the binding's type and resource id, and entries of bindings with
  the same key have the same users and the same level, so the plan keeps or drops them
  together. The plan keeps the entries in order (all of them without \<open>exclusiveOnly\<close>, the
  Safe ones with it). In real mode, after a successful worker delete, the calls issued are
  the delete calls of the kept entries that \<open>DeleteShared\<close> or their Safe level lets through,
  one per entry of type KV, R2 or D1 and none for the other types; when nothing is filtered
  (\<open>exclusiveOnly\<close> off, \<open>DeleteShared\<close> on) the delete call of a namespace, bucket or
  database is issued exactly as many times as the target has bindings to it.
\<close>

theorem duplicate_bindings_not_deduplicated:
  assumes "AnalyzeDependencies c t w = (Inr res, wc)"
    and "\<not> dryRun d"
    and "DeleteWorker (client d) (Name t) wa = (None, wb)"
  shows "length res = length (filter (\<lambda>b. getResourceKey b \<noteq> '''') (Bindings t))
    \<and> list_all2 (\<lambda>b u. BType b \<in> {BindingTypeKV, BindingTypeR2, BindingTypeD1} \<longrightarrow>
                   ResourceType u = BType b \<and> ResourceID u = getResourceID b)
         (filter (\<lambda>b. getResourceKey b \<noteq> '''') (Bindings t)) res
    \<and> (\<forall>i j. i < length res \<and> j < length res
           \<and> getResourceKey (filter (\<lambda>b. getResourceKey b \<noteq> '''') (Bindings t) ! i)
             = getResourceKey (filter (\<lambda>b. getResourceKey b \<noteq> '''') (Bindings t) ! j)
           \<longrightarrow> RiskLevel (res ! i) = RiskLevel (res ! j) \<and> UsedBy (res ! i) = UsedBy (res ! j))
    \<and> ResourcesToDelete (CreateDeletionPlan t res ex)
        = filter (\<lambda>u. \<not> (ex \<and> RiskLevel u \<noteq> RiskLevelSafe)) res
    \<and> snd (snd (Execute d ((CreateDeletionPlan t res ex)\<lparr>DeleteShared := ds\<rparr>) wa))
        = snd wb @ concat (map resourceCalls
            (filter (\<lambda>u. \<not> ex \<and> ds \<or> RiskLevel u = RiskLevelSafe) res))
    \<and> snd (snd (Execute d ((CreateDeletionPlan t res False)\<lparr>DeleteShared := True\<rparr>) wa))
        = snd wb @ concat (map resourceCalls res)
    \<and> count_list (concat (map resourceCalls res)) (DeleteKVNamespaceCall ns)
        = length (filter (\<lambda>b. BType b = BindingTypeKV \<and> NamespaceID b = ns) (Bindings t))
    \<and> count_list (concat (map resourceCalls res)) (DeleteR2BucketCall bucket)
        = length (filter (\<lambda>b. BType b = BindingTypeR2 \<and> BucketName b = bucket) (Bindings t))
    \<and> count_list (concat (map resourceCalls res)) (DeleteD1DatabaseCall db)
        = length (filter (\<lambda>b. BType b = BindingTypeD1 \<and> DatabaseID b = db) (Bindings t))"
proof (intro conjI)
  let ?bs = "filter (\<lambda>b. getResourceKey b \<noteq> '''') (Bindings t)"
  let ?R = "\<lambda>(b::Binding) (u::ResourceUsage). getResourceKey b \<noteq> '''' \<and>
            (\<exists>b0. getResourceKey b0 = getResourceKey b \<and> ResourceType u = BType b0
                \<and> ResourceID u = getResourceID b0)"
  have ids: "list_all2 ?R ?bs res"
    using AnalyzeDependencies_identities [OF assms(1)] .
  obtain index where es: "list_all2 (entryFor t index) ?bs res"
    using AnalyzeDependencies_entries [OF assms(1)] by blast
  show "length res = length ?bs"
    using list_all2_lengthD [OF ids] by simp
  show "list_all2 (\<lambda>b u. BType b \<in> {BindingTypeKV, BindingTypeR2, BindingTypeD1} \<longrightarrow>
                   ResourceType u = BType b \<and> ResourceID u = getResourceID b) ?bs res"
    using ids
  proof (rule list_all2_mono)
    fix b u
    assume "?R b u"
    then obtain b0 where b0: "getResourceKey b0 = getResourceKey b" "ResourceType u = BType b0"
        "ResourceID u = getResourceID b0"
      by blast
    show "BType b \<in> {BindingTypeKV, BindingTypeR2, BindingTypeD1} \<longrightarrow>
                   ResourceType u = BType b \<and> ResourceID u = getResourceID b"
      using same_key_same_resource [OF b0(1)] b0(2,3) by simp
  qed
  show "\<forall>i j. i < length res \<and> j < length res
           \<and> getResourceKey (?bs ! i) = getResourceKey (?bs ! j)
           \<longrightarrow> RiskLevel (res ! i) = RiskLevel (res ! j) \<and> UsedBy (res ! i) = UsedBy (res ! j)"
  proof (intro allI impI)
    fix i j
    assume h: "i < length res \<and> j < length res
           \<and> getResourceKey (?bs ! i) = getResourceKey (?bs ! j)"
    have "entryFor t index (?bs ! i) (res ! i)" "entryFor t index (?bs ! j) (res ! j)"
      using es h by (simp_all add: list_all2_conv_all_nth)
    then show "RiskLevel (res ! i) = RiskLevel (res ! j) \<and> UsedBy (res ! i) = UsedBy (res ! j)"
      using h entryFor_same_key by blast
  qed
  have inc: "ResourcesToDelete (CreateDeletionPlan t res xo)
        = filter (\<lambda>u. \<not> (xo \<and> RiskLevel u \<noteq> RiskLevelSafe)) res" for xo
    by (simp add: CreateDeletionPlan_def planLoop_ResourcesToDelete)
  show "ResourcesToDelete (CreateDeletionPlan t res ex)
        = filter (\<lambda>u. \<not> (ex \<and> RiskLevel u \<noteq> RiskLevelSafe)) res"
    by (rule inc)
  have wk: "Name (Worker (CreateDeletionPlan t res xo)) = Name t" for xo
    by (simp add: CreateDeletionPlan_def planLoop_Worker)
  have log: "snd (snd (Execute d ((CreateDeletionPlan t res xo)\<lparr>DeleteShared := sh\<rparr>) wa))
        = snd wb @ concat (map resourceCalls
            (filter (\<lambda>u. \<not> xo \<and> sh \<or> RiskLevel u = RiskLevelSafe) res))" for xo sh
  proof -
    have "filter (\<lambda>r. sh \<or> RiskLevel r = RiskLevelSafe)
            (filter (\<lambda>u. \<not> (xo \<and> RiskLevel u \<noteq> RiskLevelSafe)) res)
        = filter (\<lambda>u. \<not> xo \<and> sh \<or> RiskLevel u = RiskLevelSafe) res"
      by (induction res) auto
    then show ?thesis
      using Execute_log [of d "(CreateDeletionPlan t res xo)\<lparr>DeleteShared := sh\<rparr>" wa wb]
        assms(2,3) by (simp add: wk inc)
  qed
  show "snd (snd (Execute d ((CreateDeletionPlan t res ex)\<lparr>DeleteShared := ds\<rparr>) wa))
        = snd wb @ concat (map resourceCalls
            (filter (\<lambda>u. \<not> ex \<and> ds \<or> RiskLevel u = RiskLevelSafe) res))"
    by (rule log)
  show "snd (snd (Execute d ((CreateDeletionPlan t res False)\<lparr>DeleteShared := True\<rparr>) wa))
        = snd wb @ concat (map resourceCalls res)"
    using log [of True False] by simp
  have "count_list (concat (map resourceCalls res)) (DeleteKVNamespaceCall ns)
      = length (filter (\<lambda>b. BType b = BindingTypeKV \<and> NamespaceID b = ns) ?bs)"
    using ids by (rule count_calls) (use kv_calls in blast)
  also have "filter (\<lambda>b. BType b = BindingTypeKV \<and> NamespaceID b = ns) ?bs
      = filter (\<lambda>b. BType b = BindingTypeKV \<and> NamespaceID b = ns) (Bindings t)"
    by (rule filter_keyed) (simp add: getResourceKey_def)
  finally show "count_list (concat (map resourceCalls res)) (DeleteKVNamespaceCall ns)
        = length (filter (\<lambda>b. BType b = BindingTypeKV \<and> NamespaceID b = ns) (Bindings t))" .
  have "count_list (concat (map resourceCalls res)) (DeleteR2BucketCall bucket)
      = length (filter (\<lambda>b. BType b = BindingTypeR2 \<and> BucketName b = bucket) ?bs)"
    using ids by (rule count_calls) (use r2_calls in blast)
  also have "filter (\<lambda>b. BType b = BindingTypeR2 \<and> BucketName b = bucket) ?bs
      = filter (\<lambda>b. BType b = BindingTypeR2 \<and> BucketName b = bucket) (Bindings t)"
    by (rule filter_keyed) (simp add: getResourceKey_def BindingType_defs)
  finally show "count_list (concat (map resourceCalls res)) (DeleteR2BucketCall bucket)
        = length (filter (\<lambda>b. BType b = BindingTypeR2 \<and> BucketName b = bucket) (Bindings t))" .
  have "count_list (concat (map resourceCalls res)) (DeleteD1DatabaseCall db)
      = length (filter (\<lambda>b. BType b = BindingTypeD1 \<and> DatabaseID b = db) ?bs)"
    using ids by (rule count_calls) (use d1_calls in blast)
  also have "filter (\<lambda>b. BType b = BindingTypeD1 \<and> DatabaseID b = db) ?bs
      = filter (\<lambda>b. BType b = BindingTypeD1 \<and> DatabaseID b = db) (Bindings t)"
    by (rule filter_keyed) (simp add: getResourceKey_def BindingType_defs)
  finally show "count_list (concat (map resourceCalls res)) (DeleteD1DatabaseCall db)
        = length (filter (\<lambda>b. BType b = BindingTypeD1 \<and> DatabaseID b = db) (Bindings t))" .
qed

text \<open>\<open>twice-svc\<close> binds namespace \<open>ns-2\<close> under two names: two entries, two delete calls
  (the second one finds the namespace gone).\<close>

theorem duplicate_bindings_not_deduplicated_witness:
  "AnalyzeDependencies twiceClient twiceWorker ([''twice-svc'', ''ns-2''], []) =
     (Inr [exampleUsage ''ns-2'' BindingTypeKV ''CACHE'' [''twice-svc'', ''twice-svc'']
             RiskLevelSafe,
           exampleUsage ''ns-2'' BindingTypeKV ''CACHE'' [''twice-svc'', ''twice-svc'']
             RiskLevelSafe],
      ([''twice-svc'', ''ns-2''],
       [ListWorkersCall, ListWorkersCall, GetWorkerBindingsCall ''twice-svc'',
        ListKVNamespacesCall]))
   \<and> dryRun \<lparr>client = twiceClient, dryRun = False\<rparr> = False
   \<and> DeleteWorker (client \<lparr>client = twiceClient, dryRun = False\<rparr>) (Name twiceWorker)
        ([''twice-svc'', ''ns-2''], []) = (None, ([''ns-2''], [DeleteWorkerCall ''twice-svc'']))
   \<and> length (filter (\<lambda>b. getResourceKey b \<noteq> '''') (Bindings twiceWorker)) = 2
   \<and> snd (snd (Execute \<lparr>client = twiceClient, dryRun = False\<rparr>
        ((CreateDeletionPlan twiceWorker
            [exampleUsage ''ns-2'' BindingTypeKV ''CACHE'' [''twice-svc'', ''twice-svc'']
               RiskLevelSafe,
             exampleUsage ''ns-2'' BindingTypeKV ''CACHE'' [''twice-svc'', ''twice-svc'']
               RiskLevelSafe] False)\<lparr>DeleteShared := True\<rparr>)
        ([''twice-svc'', ''ns-2''], [])))
       = [DeleteWorkerCall ''twice-svc'', DeleteKVNamespaceCall ''ns-2'',
          DeleteKVNamespaceCall ''ns-2'']
   \<and> length (filter (\<lambda>b. BType b = BindingTypeKV \<and> NamespaceID b = ''ns-2'')
        (Bindings twiceWorker)) = 2"
proof -
  let ?u = "exampleUsage ''ns-2'' BindingTypeKV ''CACHE'' [''twice-svc'', ''twice-svc'']
             RiskLevelSafe"
  let ?d = "\<lparr>client = twiceClient, dryRun = False\<rparr> :: (string list, remote_failure) Deleter"
  have h1: "AnalyzeDependencies twiceClient twiceWorker ([''twice-svc'', ''ns-2''], []) =
     (Inr [?u, ?u],
      ([''twice-svc'', ''ns-2''],
       [ListWorkersCall, ListWorkersCall, GetWorkerBindingsCall ''twice-svc'',
        ListKVNamespacesCall]))"
    by code_simp
  have h2: "\<not> dryRun ?d"
    by simp
  have h3: "DeleteWorker (client ?d) (Name twiceWorker) ([''twice-svc'', ''ns-2''], [])
      = (None, ([''ns-2''], [DeleteWorkerCall ''twice-svc'']))"
    by code_simp
  note T = duplicate_bindings_not_deduplicated [OF h1 h2 h3, where ex = False and ds = True
      and ns = "''ns-2''" and bucket = "''''" and db = "''''"]
  have calls: "resourceCalls ?u = [DeleteKVNamespaceCall ''ns-2'']"
    by (simp add: resourceCalls_def exampleUsage_def)
  have "length [?u, ?u] = length (filter (\<lambda>b. getResourceKey b \<noteq> '''') (Bindings twiceWorker))"
    using T by blast
  then have a: "length (filter (\<lambda>b. getResourceKey b \<noteq> '''') (Bindings twiceWorker)) = 2"
    by simp
  have "snd (snd (Execute ?d ((CreateDeletionPlan twiceWorker [?u, ?u] False)
          \<lparr>DeleteShared := True\<rparr>) ([''twice-svc'', ''ns-2''], [])))
      = snd ([''ns-2''], [DeleteWorkerCall ''twice-svc'']) @ concat (map resourceCalls [?u, ?u])"
    using T by blast
  then have b: "snd (snd (Execute ?d ((CreateDeletionPlan twiceWorker [?u, ?u] False)
          \<lparr>DeleteShared := True\<rparr>) ([''twice-svc'', ''ns-2''], [])))
      = [DeleteWorkerCall ''twice-svc'', DeleteKVNamespaceCall ''ns-2'',
         DeleteKVNamespaceCall ''ns-2'']"
    by (simp add: calls)
  have "count_list (concat (map resourceCalls [?u, ?u])) (DeleteKVNamespaceCall ''ns-2'')
      = length (filter (\<lambda>b. BType b = BindingTypeKV \<and> NamespaceID b = ''ns-2'')
          (Bindings twiceWorker))"
    using T by blast
  then have c: "length (filter (\<lambda>b. BType b = BindingTypeKV \<and> NamespaceID b = ''ns-2'')
        (Bindings twiceWorker)) = 2"
    by (simp add: calls)
  have h2': "dryRun ?d = False"
    by simp
  show ?thesis
    by (intro conjI) (rule h1 h2' h3 a b c)+
qed











end
